theory Spec2Isabelle
  imports Main "HOL-Library.Word" "HOL-Library.Char_ord" "HOL-Library.List_Lexorder"
begin

section \<open>The MCP access layer of the memo service\<close>

text \<open>
  A shallow embedding of \<^verbatim>\<open>server/router/mcp\<close>: \<^verbatim>\<open>tools_memo.go\<close>,
  \<^verbatim>\<open>resources_memo.go\<close> and the tag tool (\<^verbatim>\<open>handleListTags\<close>). Go's
  \<^verbatim>\<open>int32\<close> is \<open>32 word\<close>, \<^verbatim>\<open>int64\<close> and \<^verbatim>\<open>int\<close> are \<open>64 word\<close>
  (read signed, through \<open>sint\<close>); strings are byte lists; a nil pointer is \<open>None\<close>.
\<close>

subsection \<open>Data model\<close>

type_synonym int32 = "32 word"
type_synonym int64 = "64 word"

text \<open>
  \<^verbatim>\<open>store.Visibility\<close> and \<^verbatim>\<open>store.RowStatus\<close> are string types in Go, so a
  memo can hold a value that is none of the named constants. The constants are the
  strings the handlers' own messages and filter clause spell out.
\<close>

type_synonym Visibility = string
type_synonym RowStatus = string

definition Public :: Visibility where "Public = ''PUBLIC''"
definition Protected :: Visibility where "Protected = ''PROTECTED''"
definition Private :: Visibility where "Private = ''PRIVATE''"

definition Normal :: RowStatus where "Normal = ''NORMAL''"
definition Archived :: RowStatus where "Archived = ''ARCHIVED''"

record MemoPayload_Property =
  HasLink :: bool
  HasTaskList :: bool
  HasCode :: bool
  HasIncompleteTasks :: bool

record MemoPayload =
  Tags :: "string list"
  Property :: "MemoPayload_Property option"

record Memo =
  ID :: int32
  UID :: string
  RowStatus :: RowStatus
  CreatorID :: int32
  CreatedTs :: int64
  UpdatedTs :: int64
  Content :: string
  Visibility :: Visibility
  Pinned :: bool
  Payload :: "MemoPayload option"
  ParentUID :: "string option"

subsection \<open>Tag extraction\<close>

text \<open>
  \<^verbatim>\<open>tagRegexp = (?:^|\s)#([A-Za-z][^\s#]*)\<close>. In Go's regexp syntax \<^verbatim>\<open>\s\<close> is the
  class of tab, newline, form feed, carriage return and space, and \<^verbatim>\<open>^\<close> (no
  multi-line flag) is the beginning of the text. Every member of the three classes is
  an ASCII byte, and every byte of a longer UTF-8 sequence (or an invalid byte) lies in
  \<^verbatim>\<open>[^\s#]\<close>, so matching bytes and matching runes agree.
\<close>

definition is_space :: "char \<Rightarrow> bool" where
  "is_space c = (c = CHR 0x09 \<or> c = CHR 0x0A \<or> c = CHR 0x0C \<or> c = CHR 0x0D \<or> c = CHR '' '')"

definition is_letter :: "char \<Rightarrow> bool" where
  "is_letter c =
     ((CHR ''A'' \<le> c \<and> c \<le> CHR ''Z'') \<or> (CHR ''a'' \<le> c \<and> c \<le> CHR ''z''))"

definition is_tag_char :: "char \<Rightarrow> bool" where
  "is_tag_char c = (\<not> is_space c \<and> c \<noteq> CHR ''#'')"

text \<open>
  \<open>match_body s\<close>: \<^verbatim>\<open>#([A-Za-z][^\s#]*)\<close> at the head of \<open>s\<close>; the star is greedy
  and nothing follows it, so the group is the longest run. The result is the group and
  the text after the match.
\<close>

fun match_body :: "string \<Rightarrow> (string \<times> string) option" where
  "match_body (h # l # cs) =
     (if h = CHR ''#'' \<and> is_letter l
      then Some (l # takeWhile is_tag_char cs, dropWhile is_tag_char cs)
      else None)"
| "match_body _ = None"

text \<open>
  \<open>match_at beg s\<close>: the whole expression at the current position, \<open>beg\<close> telling
  whether that position is the beginning of the text. The alternatives are tried in
  the order written: \<^verbatim>\<open>^\<close> first, then \<^verbatim>\<open>\s\<close>.
\<close>

definition match_at :: "bool \<Rightarrow> string \<Rightarrow> (string \<times> string) option" where
  "match_at beg s =
     (case (if beg then match_body s else None) of
        Some r \<Rightarrow> Some r
      | None \<Rightarrow>
          (case s of
             [] \<Rightarrow> None
           | c # cs \<Rightarrow> if is_space c then match_body cs else None))"

lemma match_body_shorter:
  "match_body s = Some (tag, rest) \<Longrightarrow> length rest < length s"
proof (induction s rule: match_body.induct)
  case (1 h l cs)
  have "length (dropWhile is_tag_char cs) \<le> length cs"
    by (rule length_dropWhile_le)
  with 1 show ?case by (auto split: if_splits)
qed simp_all

lemma match_at_shorter:
  "match_at beg s = Some (tag, rest) \<Longrightarrow> length rest < length s"
  unfolding match_at_def
  by (auto split: option.splits list.splits if_splits dest: match_body_shorter)

text \<open>
  \<^verbatim>\<open>FindAllStringSubmatch(content, -1)\<close>, keeping of each match the group \<^verbatim>\<open>m[1]\<close>:
  the leftmost match, then the search goes on where that match ended (no match is
  empty), and a position with no match is passed over.
\<close>

function FindAllStringSubmatch :: "bool \<Rightarrow> string \<Rightarrow> string list" where
  "FindAllStringSubmatch beg s =
     (case match_at beg s of
        Some (tag, rest) \<Rightarrow> tag # FindAllStringSubmatch False rest
      | None \<Rightarrow>
          (case s of
             [] \<Rightarrow> []
           | c # cs \<Rightarrow> FindAllStringSubmatch False cs))"
  by pat_completeness auto
termination
  by (relation "measure (\<lambda>(beg, s). length s)") (auto dest: match_at_shorter)

text \<open>The loop of \<^verbatim>\<open>extractTags\<close>: \<open>seen\<close> is the map used as a set.\<close>

fun extractTags_loop :: "string set \<Rightarrow> string list \<Rightarrow> string list \<Rightarrow> string list" where
  "extractTags_loop seen tags [] = tags"
| "extractTags_loop seen tags (tag # ms) =
     (if tag \<in> seen then extractTags_loop seen tags ms
      else extractTags_loop (insert tag seen) (tags @ [tag]) ms)"

definition extractTags :: "string \<Rightarrow> string list" where
  "extractTags content = extractTags_loop {} [] (FindAllStringSubmatch True content)"

definition buildPayload :: "string \<Rightarrow> MemoPayload option" where
  "buildPayload content =
     (let tags = extractTags content
      in if length tags = 0 then None else Some \<lparr>Tags = tags, Property = None\<rparr>)"

subsection \<open>The read-access check\<close>

datatype tool_error =
    PermissionDenied
  | Unauthenticated
  | MemoNotFound
  | ContentRequired
  | QueryRequired
  | InvalidMemoName string
  | InvalidVisibility string
  | InvalidState string
  | StoreFailure string string

text \<open>\<^verbatim>\<open>checkMemoAccess\<close>: \<open>None\<close> is the nil error; \<open>userID = 0\<close> is the anonymous caller.\<close>

definition checkMemoAccess :: "Memo \<Rightarrow> int32 \<Rightarrow> tool_error option" where
  "checkMemoAccess memo userID =
     (if Visibility memo = Protected then
        (if userID = 0 then Some PermissionDenied else None)
      else if Visibility memo = Private then
        (if CreatorID memo \<noteq> userID then Some PermissionDenied else None)
      else None)"

subsection \<open>Formatting\<close>

text \<open>The verb \<^verbatim>\<open>%d\<close> of Go's \<^verbatim>\<open>fmt\<close>: a decimal numeral, with a minus sign below zero.\<close>

definition digit_char :: "nat \<Rightarrow> char" where
  "digit_char d = ''0123456789'' ! d"

function format_nat :: "nat \<Rightarrow> string" where
  "format_nat n =
     (if n < 10 then [digit_char n] else format_nat (n div 10) @ [digit_char (n mod 10)])"
  by pat_completeness auto
termination
  by (relation "measure id") auto

declare format_nat.simps [simp del]

definition format_d :: "int \<Rightarrow> string" where
  "format_d i = (if i < 0 then CHR ''-'' # format_nat (nat (- i)) else format_nat (nat i))"

text \<open>The verb \<^verbatim>\<open>%v\<close> on a \<^verbatim>\<open>bool\<close>.\<close>

definition format_bool :: "bool \<Rightarrow> string" where
  "format_bool b = (if b then ''true'' else ''false'')"

text \<open>\<^verbatim>\<open>strings.Join\<close>.\<close>

fun Join :: "string list \<Rightarrow> string \<Rightarrow> string" where
  "Join [] sep = []"
| "Join [x] sep = x"
| "Join (x # y # ys) sep = x @ sep @ Join (y # ys) sep"

subsection \<open>The canonical response shape\<close>

record propertyJSON =
  jHasLink :: bool
  jHasTaskList :: bool
  jHasCode :: bool
  jHasIncompleteTasks :: bool

text \<open>
  \<^verbatim>\<open>memoJSON\<close>. A Go slice is nil or a sequence, and \<^verbatim>\<open>encoding/json\<close> tells the
  two apart, so \<open>jTags\<close> is an option: \<open>None\<close> is the nil slice.
\<close>

record memoJSON =
  jName :: string
  jCreator :: string
  jCreateTime :: int64
  jUpdateTime :: int64
  jContent :: string
  jVisibility :: string
  jTags :: "string list option"
  jPinned :: bool
  jState :: string
  jProperty :: "propertyJSON option"
  jParent :: string

definition storeMemoToJSON :: "Memo \<Rightarrow> memoJSON" where
  "storeMemoToJSON m =
     (let j = \<lparr>jName = ''memos/'' @ UID m,
                jCreator = ''users/'' @ format_d (sint (CreatorID m)),
                jCreateTime = CreatedTs m,
                jUpdateTime = UpdatedTs m,
                jContent = Content m,
                jVisibility = Visibility m,
                jTags = Some [],
                jPinned = Pinned m,
                jState = RowStatus m,
                jProperty = None,
                jParent = ''''\<rparr>;
          j = (case Payload m of
                 None \<Rightarrow> j
               | Some payload \<Rightarrow>
                   (let j = (if length (Tags payload) > 0
                             then j\<lparr>jTags := Some (Tags payload)\<rparr> else j)
                    in case Property payload of
                         None \<Rightarrow> j
                       | Some p \<Rightarrow>
                           if HasLink p \<or> HasTaskList p \<or> HasCode p \<or> HasIncompleteTasks p
                           then j\<lparr>jProperty := Some \<lparr>jHasLink = HasLink p,
                                                      jHasTaskList = HasTaskList p,
                                                      jHasCode = HasCode p,
                                                      jHasIncompleteTasks = HasIncompleteTasks p\<rparr>\<rparr>
                           else j))
      in case ParentUID m of
           None \<Rightarrow> j
         | Some parent \<Rightarrow> j\<lparr>jParent := ''memos/'' @ parent\<rparr>)"

text \<open>
  What \<^verbatim>\<open>json.Marshal\<close> writes, as a syntax tree: an object is the list of its members
  in the order written. None of the values marshalled here can make it fail. \<open>JString s\<close>
  stands for the JSON string that the encoder writes for the Go string \<open>s\<close>: the tree
  holds \<open>s\<close> itself, and the encoder's escaping is not part of it, nor its replacement
  of each byte of \<open>s\<close> that is not valid UTF-8 by U+FFFD. So the tree tells which
  members are written, in which order and from which Go value, and the text of a string
  member only for a valid UTF-8 string.
\<close>

datatype json =
    JNull
  | JBool bool
  | JNumber int
  | JString string
  | JArray "json list"
  | JObject "(string \<times> json) list"

definition json_field :: "json \<Rightarrow> string \<Rightarrow> json option" where
  "json_field v k = (case v of JObject ms \<Rightarrow> map_of ms k | _ \<Rightarrow> None)"

definition marshal_strings :: "string list option \<Rightarrow> json" where
  "marshal_strings xs = (case xs of None \<Rightarrow> JNull | Some ys \<Rightarrow> JArray (map JString ys))"

definition marshal_propertyJSON :: "propertyJSON \<Rightarrow> json" where
  "marshal_propertyJSON p =
     JObject [(''has_link'', JBool (jHasLink p)),
              (''has_task_list'', JBool (jHasTaskList p)),
              (''has_code'', JBool (jHasCode p)),
              (''has_incomplete_tasks'', JBool (jHasIncompleteTasks p))]"

text \<open>
  The struct tags of \<^verbatim>\<open>memoJSON\<close>: \<^verbatim>\<open>content\<close>, \<^verbatim>\<open>property\<close> and \<^verbatim>\<open>parent\<close> are
  \<^verbatim>\<open>omitempty\<close> (left out when the empty string, or the nil pointer).
\<close>

definition marshal_memoJSON :: "memoJSON \<Rightarrow> json" where
  "marshal_memoJSON j =
     JObject
       ([(''name'', JString (jName j)),
         (''creator'', JString (jCreator j)),
         (''create_time'', JNumber (sint (jCreateTime j))),
         (''update_time'', JNumber (sint (jUpdateTime j)))]
        @ (if jContent j = '''' then [] else [(''content'', JString (jContent j))])
        @ [(''visibility'', JString (jVisibility j)),
           (''tags'', marshal_strings (jTags j)),
           (''pinned'', JBool (jPinned j)),
           (''state'', JString (jState j))]
        @ (case jProperty j of None \<Rightarrow> [] | Some p \<Rightarrow> [(''property'', marshal_propertyJSON p)])
        @ (if jParent j = '''' then [] else [(''parent'', JString (jParent j))]))"

subsection \<open>Query specifications and the visibility filter\<close>

text \<open>
  \<^verbatim>\<open>store.FindMemo\<close>, with the fields this layer sets; \<open>FindMemo0\<close> is Go's zero value.
\<close>

record FindMemo =
  Find_ID :: "int32 option"
  Find_UID :: "string option"
  Find_RowStatus :: "RowStatus option"
  Find_VisibilityList :: "Visibility list"
  Find_ExcludeContent :: bool
  Find_ExcludeComments :: bool
  Find_Limit :: "int64 option"
  Find_Offset :: "int64 option"
  Find_OrderByPinned :: bool
  Find_Filters :: "string list"
  Find_IDList :: "int32 list"

definition FindMemo0 :: FindMemo where
  "FindMemo0 =
     \<lparr>Find_ID = None, Find_UID = None, Find_RowStatus = None, Find_VisibilityList = [],
      Find_ExcludeContent = False, Find_ExcludeComments = False, Find_Limit = None,
      Find_Offset = None, Find_OrderByPinned = False, Find_Filters = [], Find_IDList = []\<rparr>"

text \<open>The clause \<^verbatim>\<open>creator_id == %d || visibility in ["PUBLIC", "PROTECTED"]\<close>.\<close>

definition policy_clause :: "int32 \<Rightarrow> string" where
  "policy_clause userID =
     ''creator_id == '' @ format_d (sint userID)
       @ '' || visibility in [\"PUBLIC\", \"PROTECTED\"]''"

definition applyVisibilityFilter :: "FindMemo \<Rightarrow> int32 \<Rightarrow> FindMemo" where
  "applyVisibilityFilter fnd userID =
     (if userID = 0 then fnd\<lparr>Find_VisibilityList := [Public]\<rparr>
      else fnd\<lparr>Find_Filters := Find_Filters fnd @ [policy_clause userID]\<rparr>)"

subsection \<open>Argument validation\<close>

text \<open>\<^verbatim>\<open>strings.CutPrefix\<close> and \<^verbatim>\<open>strings.TrimPrefix\<close>.\<close>

definition HasPrefix :: "string \<Rightarrow> string \<Rightarrow> bool" where
  "HasPrefix s p = (take (length p) s = p)"

definition CutPrefix :: "string \<Rightarrow> string \<Rightarrow> string \<times> bool" where
  "CutPrefix s p = (if HasPrefix s p then (drop (length p) s, True) else (s, False))"

definition TrimPrefix :: "string \<Rightarrow> string \<Rightarrow> string" where
  "TrimPrefix s p = (if HasPrefix s p then drop (length p) s else s)"

definition parseMemoUID :: "string \<Rightarrow> tool_error + string" where
  "parseMemoUID name =
     (case CutPrefix name ''memos/'' of
        (uid, ok) \<Rightarrow> if \<not> ok \<or> uid = '''' then Inl (InvalidMemoName name) else Inr uid)"

definition parseVisibility :: "string \<Rightarrow> tool_error + Visibility" where
  "parseVisibility s =
     (if s = Public \<or> s = Protected \<or> s = Private then Inr s else Inl (InvalidVisibility s))"

definition parseRowStatus :: "string \<Rightarrow> tool_error + RowStatus" where
  "parseRowStatus s =
     (if s = Normal \<or> s = Archived then Inr s else Inl (InvalidState s))"

text \<open>The argument is \<^verbatim>\<open>auth.GetUserID(ctx)\<close>: the caller's identity, 0 when anonymous.\<close>

definition extractUserID :: "int32 \<Rightarrow> tool_error + int32" where
  "extractUserID ident = (if ident = 0 then Inl Unauthenticated else Inr ident)"

subsection \<open>Call arguments\<close>

text \<open>
  The arguments of a call are a JSON object, decoded to \<^verbatim>\<open>map[string]any\<close>, where
  a number is a \<^verbatim>\<open>float64\<close>. \<open>ANumber n\<close> is a number without fractional part, of
  value \<open>n\<close>; \<open>AFraction n\<close> is a number with a fractional part (so it is not zero)
  whose integer part, towards zero, is \<open>n\<close>: the accessor's conversion \<^verbatim>\<open>int(v)\<close>
  gives \<open>n\<close> for both, and the test \<^verbatim>\<open>v != 0\<close> of \<^verbatim>\<open>GetBool\<close> is true of every
  \<open>AFraction\<close>, also of one between -1 and 1. (Numbers outside the range of Go's 64-bit
  \<^verbatim>\<open>int\<close> are not modelled.) \<open>AOther\<close> is null, an array or an object. The
  accessors are those of the \<^verbatim>\<open>mcp-go\<close> request type: the value when the key is
  there and of the right type (a string is also read as a number or a boolean when
  \<^verbatim>\<open>strconv\<close> parses it), the default otherwise.
\<close>

datatype arg_value =
  AString string | ANumber int64 | AFraction int64 | ABool bool | AOther

type_synonym arguments = "string \<rightharpoonup> arg_value"

definition digit_val :: "char \<Rightarrow> nat option" where
  "digit_val c =
     (if CHR ''0'' \<le> c \<and> c \<le> CHR ''9'' then Some (of_char c - 48) else None)"

fun parse_digits :: "nat \<Rightarrow> string \<Rightarrow> nat option" where
  "parse_digits acc [] = Some acc"
| "parse_digits acc (c # cs) =
     (case digit_val c of None \<Rightarrow> None | Some d \<Rightarrow> parse_digits (10 * acc + d) cs)"

text \<open>\<^verbatim>\<open>strconv.Atoi\<close>: an optional sign, decimal digits, and a value that fits.\<close>

definition Atoi :: "string \<Rightarrow> int64 option" where
  "Atoi s =
     (let (neg, ds) =
            (case s of
               [] \<Rightarrow> (False, [])
             | c # cs \<Rightarrow>
                 if c = CHR ''-'' then (True, cs)
                 else if c = CHR ''+'' then (False, cs) else (False, s))
      in if ds = [] then None
         else case parse_digits 0 ds of
                None \<Rightarrow> None
              | Some n \<Rightarrow>
                  (let v = (if neg then - int n else int n)
                   in if - (2 ^ 63) \<le> v \<and> v < 2 ^ 63 then Some (word_of_int v) else None))"

text \<open>\<^verbatim>\<open>strconv.ParseBool\<close>.\<close>

definition ParseBool :: "string \<Rightarrow> bool option" where
  "ParseBool s =
     (if s \<in> {''1'', ''t'', ''T'', ''TRUE'', ''true'', ''True''} then Some True
      else if s \<in> {''0'', ''f'', ''F'', ''FALSE'', ''false'', ''False''} then Some False
      else None)"

definition GetString :: "arguments \<Rightarrow> string \<Rightarrow> string \<Rightarrow> string" where
  "GetString req key dflt = (case req key of Some (AString s) \<Rightarrow> s | _ \<Rightarrow> dflt)"

definition GetInt :: "arguments \<Rightarrow> string \<Rightarrow> int64 \<Rightarrow> int64" where
  "GetInt req key dflt =
     (case req key of
        Some (ANumber n) \<Rightarrow> n
      | Some (AFraction n) \<Rightarrow> n
      | Some (AString s) \<Rightarrow> (case Atoi s of Some i \<Rightarrow> i | None \<Rightarrow> dflt)
      | _ \<Rightarrow> dflt)"

definition GetBool :: "arguments \<Rightarrow> string \<Rightarrow> bool \<Rightarrow> bool" where
  "GetBool req key dflt =
     (case req key of
        Some (ABool b) \<Rightarrow> b
      | Some (AString s) \<Rightarrow> (case ParseBool s of Some b \<Rightarrow> b | None \<Rightarrow> dflt)
      | Some (ANumber n) \<Rightarrow> n \<noteq> 0
      | Some (AFraction n) \<Rightarrow> True
      | _ \<Rightarrow> dflt)"

subsection \<open>The store collaborator\<close>

text \<open>
  The handlers reach the store through \<^verbatim>\<open>s.store\<close>. Its operations are parameters
  of the model: a record of functions over a state \<open>'st\<close>, which the writing
  operations return updated and the reading ones leave alone. A Go \<^verbatim>\<open>error\<close> of
  the store is its message. \<^verbatim>\<open>store.DeleteMemo\<close> has the one field \<^verbatim>\<open>ID\<close> here, so
  the operation takes the id. Of the store's relation types this layer uses the comment
  type only.
\<close>

type_synonym store_error = string

datatype MemoRelationType = MemoRelationReference | MemoRelationComment

record MemoRelation =
  MemoID :: int32
  RelatedMemoID :: int32
  Type :: MemoRelationType

record UpdateMemo =
  Update_ID :: int32
  Update_RowStatus :: "RowStatus option"
  Update_Content :: "string option"
  Update_Visibility :: "Visibility option"
  Update_Pinned :: "bool option"
  Update_Payload :: "MemoPayload option"

record 'st Store =
  GetMemo :: "'st \<Rightarrow> FindMemo \<Rightarrow> store_error + Memo option"
  ListMemos :: "'st \<Rightarrow> FindMemo \<Rightarrow> store_error + Memo list"
  CreateMemo :: "'st \<Rightarrow> Memo \<Rightarrow> (store_error + Memo) \<times> 'st"
  UpdateMemo :: "'st \<Rightarrow> UpdateMemo \<Rightarrow> store_error option \<times> 'st"
  DeleteMemo :: "'st \<Rightarrow> int32 \<Rightarrow> store_error option \<times> 'st"
  UpsertMemoRelation :: "'st \<Rightarrow> MemoRelation \<Rightarrow> (store_error + MemoRelation) \<times> 'st"

text \<open>
  The result of a tool call. \<open>RuntimePanic\<close> is a nil-pointer dereference in the handler.
\<close>

datatype tool_result = ToolResultText json | ToolResultError tool_error | RuntimePanic

subsection \<open>The tool handlers\<close>

text \<open>
  In every handler \<open>ident\<close> is \<^verbatim>\<open>auth.GetUserID(ctx)\<close>, \<open>req\<close> the call's arguments,
  \<open>store\<close> and \<open>st\<close> the store and its state.
\<close>

paragraph \<open>\<^verbatim>\<open>handleListMemos\<close>\<close>

definition list_pageSize :: "arguments \<Rightarrow> int64" where
  "list_pageSize req =
     (let pageSize = GetInt req ''page_size'' 20;
          pageSize = (if sint pageSize \<le> 0 then 20 else pageSize);
          pageSize = (if sint pageSize > 100 then 100 else pageSize)
      in pageSize)"

definition list_page :: "arguments \<Rightarrow> int64" where
  "list_page req =
     (let page = GetInt req ''page'' 0
      in if sint page < 0 then 0 else page)"

text \<open>The query specification \<^verbatim>\<open>handleListMemos\<close> builds, or its validation error.\<close>

definition list_find :: "int32 \<Rightarrow> arguments \<Rightarrow> tool_error + FindMemo" where
  "list_find userID req =
     (let pageSize = list_pageSize req;
          page = list_page req;
          state = GetString req ''state'' ''NORMAL''
      in case (if state \<noteq> ''''
               then (case parseRowStatus state of Inl e \<Rightarrow> Inl e | Inr rs \<Rightarrow> Inr (Some rs))
               else Inr None) of
           Inl e \<Rightarrow> Inl e
         | Inr rowStatus \<Rightarrow>
             (let limit = pageSize + 1;
                  offset = page * pageSize;
                  fnd = FindMemo0\<lparr>Find_ExcludeComments := True,
                                   Find_RowStatus := rowStatus,
                                   Find_Limit := Some limit,
                                   Find_Offset := Some offset,
                                   Find_OrderByPinned := GetBool req ''order_by_pinned'' False\<rparr>;
                  fnd = applyVisibilityFilter fnd userID;
                  flt = GetString req ''filter'' ''''
              in Inr (if flt \<noteq> '''' then fnd\<lparr>Find_Filters := Find_Filters fnd @ [flt]\<rparr>
                      else fnd)))"

definition handleListMemos :: "'st Store \<Rightarrow> 'st \<Rightarrow> int32 \<Rightarrow> arguments \<Rightarrow> tool_result" where
  "handleListMemos store st ident req =
     (case list_find ident req of
        Inl e \<Rightarrow> ToolResultError e
      | Inr fnd \<Rightarrow>
          (case ListMemos store st fnd of
             Inl err \<Rightarrow> ToolResultError (StoreFailure ''failed to list memos'' err)
           | Inr memos \<Rightarrow>
               (let pageSize = list_pageSize req;
                    hasMore = (int (length memos) > sint pageSize);
                    memos = (if hasMore then take (nat (sint pageSize)) memos else memos);
                    results = map storeMemoToJSON memos
                in ToolResultText
                     (JObject [(''memos'', JArray (map marshal_memoJSON results)),
                               (''has_more'', JBool hasMore)]))))"

paragraph \<open>\<^verbatim>\<open>handleGetMemo\<close>\<close>

definition handleGetMemo :: "'st Store \<Rightarrow> 'st \<Rightarrow> int32 \<Rightarrow> arguments \<Rightarrow> tool_result" where
  "handleGetMemo store st userID req =
     (case parseMemoUID (GetString req ''name'' '''') of
        Inl e \<Rightarrow> ToolResultError e
      | Inr uid \<Rightarrow>
          (case GetMemo store st (FindMemo0\<lparr>Find_UID := Some uid\<rparr>) of
             Inl err \<Rightarrow> ToolResultError (StoreFailure ''failed to get memo'' err)
           | Inr None \<Rightarrow> ToolResultError MemoNotFound
           | Inr (Some memo) \<Rightarrow>
               (case checkMemoAccess memo userID of
                  Some e \<Rightarrow> ToolResultError e
                | None \<Rightarrow> ToolResultText (marshal_memoJSON (storeMemoToJSON memo)))))"

paragraph \<open>\<^verbatim>\<open>handleUpdateMemo\<close>\<close>

text \<open>The part of the handler that fills \<^verbatim>\<open>update\<close> from the arguments.\<close>

definition update_fields :: "Memo \<Rightarrow> arguments \<Rightarrow> tool_error + UpdateMemo" where
  "update_fields memo req =
     (let update = \<lparr>Update_ID = ID memo, Update_RowStatus = None, Update_Content = None,
                     Update_Visibility = None, Update_Pinned = None, Update_Payload = None\<rparr>;
          v = GetString req ''content'' '''';
          update = (if v \<noteq> ''''
                    then update\<lparr>Update_Content := Some v, Update_Payload := buildPayload v\<rparr>
                    else update);
          v = GetString req ''visibility'' ''''
      in case (if v \<noteq> ''''
               then (case parseVisibility v of
                       Inl e \<Rightarrow> Inl e
                     | Inr vis \<Rightarrow> Inr (update\<lparr>Update_Visibility := Some vis\<rparr>))
               else Inr update) of
           Inl e \<Rightarrow> Inl e
         | Inr update \<Rightarrow>
             (let v = GetString req ''state'' ''''
              in case (if v \<noteq> ''''
                       then (case parseRowStatus v of
                               Inl e \<Rightarrow> Inl e
                             | Inr rs \<Rightarrow> Inr (update\<lparr>Update_RowStatus := Some rs\<rparr>))
                       else Inr update) of
                   Inl e \<Rightarrow> Inl e
                 | Inr update \<Rightarrow>
                     Inr (if req ''pinned'' \<noteq> None
                          then update\<lparr>Update_Pinned := Some (GetBool req ''pinned'' False)\<rparr>
                          else update)))"

definition handleUpdateMemo ::
  "'st Store \<Rightarrow> 'st \<Rightarrow> int32 \<Rightarrow> arguments \<Rightarrow> tool_result \<times> 'st" where
  "handleUpdateMemo store st ident req =
     (case extractUserID ident of
        Inl e \<Rightarrow> (ToolResultError e, st)
      | Inr userID \<Rightarrow>
     (case parseMemoUID (GetString req ''name'' '''') of
        Inl e \<Rightarrow> (ToolResultError e, st)
      | Inr uid \<Rightarrow>
     (case GetMemo store st (FindMemo0\<lparr>Find_UID := Some uid\<rparr>) of
        Inl err \<Rightarrow> (ToolResultError (StoreFailure ''failed to get memo'' err), st)
      | Inr None \<Rightarrow> (ToolResultError MemoNotFound, st)
      | Inr (Some memo) \<Rightarrow>
          if CreatorID memo \<noteq> userID then (ToolResultError PermissionDenied, st)
          else
     (case update_fields memo req of
        Inl e \<Rightarrow> (ToolResultError e, st)
      | Inr update \<Rightarrow>
     (case UpdateMemo store st update of
        (Some err, st') \<Rightarrow> (ToolResultError (StoreFailure ''failed to update memo'' err), st')
      | (None, st') \<Rightarrow>
     (case GetMemo store st' (FindMemo0\<lparr>Find_ID := Some (ID memo)\<rparr>) of
        Inl err \<Rightarrow> (ToolResultError (StoreFailure ''failed to fetch updated memo'' err), st')
      | Inr None \<Rightarrow> (RuntimePanic, st')
      | Inr (Some updated) \<Rightarrow>
          (ToolResultText (marshal_memoJSON (storeMemoToJSON updated)), st')))))))"

paragraph \<open>\<^verbatim>\<open>handleDeleteMemo\<close>\<close>

definition handleDeleteMemo ::
  "'st Store \<Rightarrow> 'st \<Rightarrow> int32 \<Rightarrow> arguments \<Rightarrow> tool_result \<times> 'st" where
  "handleDeleteMemo store st ident req =
     (case extractUserID ident of
        Inl e \<Rightarrow> (ToolResultError e, st)
      | Inr userID \<Rightarrow>
     (case parseMemoUID (GetString req ''name'' '''') of
        Inl e \<Rightarrow> (ToolResultError e, st)
      | Inr uid \<Rightarrow>
     (case GetMemo store st (FindMemo0\<lparr>Find_UID := Some uid\<rparr>) of
        Inl err \<Rightarrow> (ToolResultError (StoreFailure ''failed to get memo'' err), st)
      | Inr None \<Rightarrow> (ToolResultError MemoNotFound, st)
      | Inr (Some memo) \<Rightarrow>
          if CreatorID memo \<noteq> userID then (ToolResultError PermissionDenied, st)
          else
     (case DeleteMemo store st (ID memo) of
        (Some err, st') \<Rightarrow> (ToolResultError (StoreFailure ''failed to delete memo'' err), st')
      | (None, st') \<Rightarrow> (ToolResultText (JObject [(''deleted'', JBool True)]), st')))))"

paragraph \<open>\<^verbatim>\<open>handleSearchMemos\<close>\<close>

text \<open>
  \<open>quote\<close> is the verb \<^verbatim>\<open>%q\<close> (\<^verbatim>\<open>strconv.Quote\<close>), a parameter of the model.
\<close>

definition search_find :: "(string \<Rightarrow> string) \<Rightarrow> int32 \<Rightarrow> string \<Rightarrow> FindMemo" where
  "search_find quote userID query =
     (let limit = 50; zero = 0; rowStatus = Normal;
          fnd = FindMemo0\<lparr>Find_ExcludeComments := True,
                           Find_RowStatus := Some rowStatus,
                           Find_Limit := Some limit,
                           Find_Offset := Some zero,
                           Find_Filters := [''content.contains('' @ quote query @ '')'']\<rparr>
      in applyVisibilityFilter fnd userID)"

definition handleSearchMemos ::
  "'st Store \<Rightarrow> (string \<Rightarrow> string) \<Rightarrow> 'st \<Rightarrow> int32 \<Rightarrow> arguments \<Rightarrow> tool_result" where
  "handleSearchMemos store quote st userID req =
     (let query = GetString req ''query'' ''''
      in if query = '''' then ToolResultError QueryRequired
         else case ListMemos store st (search_find quote userID query) of
                Inl err \<Rightarrow> ToolResultError (StoreFailure ''failed to search memos'' err)
              | Inr memos \<Rightarrow>
                  ToolResultText (JArray (map marshal_memoJSON (map storeMemoToJSON memos))))"

paragraph \<open>\<^verbatim>\<open>handleCreateMemoComment\<close>\<close>

text \<open>
  \<open>new_uid\<close> is the value of \<^verbatim>\<open>shortuuid.New()\<close>. The fields the composite literal
  leaves out hold Go's zero values.
\<close>

definition comment_draft :: "string \<Rightarrow> int32 \<Rightarrow> string \<Rightarrow> Memo \<Rightarrow> Memo" where
  "comment_draft new_uid userID content parent =
     \<lparr>ID = 0, UID = new_uid, RowStatus = '''', CreatorID = userID, CreatedTs = 0,
      UpdatedTs = 0, Content = content, Visibility = Visibility parent, Pinned = False,
      Payload = buildPayload content, ParentUID = Some (UID parent)\<rparr>"

definition handleCreateMemoComment ::
  "'st Store \<Rightarrow> string \<Rightarrow> 'st \<Rightarrow> int32 \<Rightarrow> arguments \<Rightarrow> tool_result \<times> 'st" where
  "handleCreateMemoComment store new_uid st ident req =
     (case extractUserID ident of
        Inl e \<Rightarrow> (ToolResultError e, st)
      | Inr userID \<Rightarrow>
     (case parseMemoUID (GetString req ''name'' '''') of
        Inl e \<Rightarrow> (ToolResultError e, st)
      | Inr uid \<Rightarrow>
     (let content = GetString req ''content'' ''''
      in if content = '''' then (ToolResultError ContentRequired, st)
         else
     (case GetMemo store st (FindMemo0\<lparr>Find_UID := Some uid\<rparr>) of
        Inl err \<Rightarrow> (ToolResultError (StoreFailure ''failed to get memo'' err), st)
      | Inr None \<Rightarrow> (ToolResultError MemoNotFound, st)
      | Inr (Some parent) \<Rightarrow>
     (case checkMemoAccess parent userID of
        Some e \<Rightarrow> (ToolResultError e, st)
      | None \<Rightarrow>
     (case CreateMemo store st (comment_draft new_uid userID content parent) of
        (Inl err, st') \<Rightarrow> (ToolResultError (StoreFailure ''failed to create comment'' err), st')
      | (Inr comment, st') \<Rightarrow>
     (case UpsertMemoRelation store st'
             \<lparr>MemoID = ID comment, RelatedMemoID = ID parent, Type = MemoRelationComment\<rparr> of
        (Inl err, st'') \<Rightarrow> (ToolResultError (StoreFailure ''failed to link comment'' err), st'')
      | (Inr _, st'') \<Rightarrow>
          (ToolResultText (marshal_memoJSON (storeMemoToJSON comment)), st''))))))))"

paragraph \<open>\<^verbatim>\<open>handleListTags\<close>\<close>

record tagEntry =
  Tag :: string
  Count :: int

text \<open>
  \<^verbatim>\<open>counts[tag]++\<close> on the map \<^verbatim>\<open>counts\<close>, held as the list of its entries in the
  order the keys were first stored. A count is far from the bounds of Go's \<^verbatim>\<open>int\<close>
  (it is at most the number of tag strings in memory), so it is an \<open>int\<close>.
\<close>

fun bump :: "(string \<times> int) list \<Rightarrow> string \<Rightarrow> (string \<times> int) list" where
  "bump [] tag = [(tag, 1)]"
| "bump ((k, n) # kvs) tag = (if k = tag then (k, n + 1) # kvs else (k, n) # bump kvs tag)"

definition count_tags :: "Memo list \<Rightarrow> (string \<times> int) list" where
  "count_tags memos =
     foldl (\<lambda>counts m. case Payload m of
                          None \<Rightarrow> counts
                        | Some payload \<Rightarrow> foldl bump counts (Tags payload))
           [] memos"

text \<open>The comparison handed to \<^verbatim>\<open>sort.Slice\<close>; Go compares strings byte by byte.\<close>

definition tag_less :: "tagEntry \<Rightarrow> tagEntry \<Rightarrow> bool" where
  "tag_less a b = (if Count a \<noteq> Count b then Count a > Count b else Tag a < Tag b)"

text \<open>
  \<^verbatim>\<open>sort.Slice\<close>, as an insertion sort. (Go ranges over a map in no fixed order and
  its sort is not stable; lemma \<open>listTags_order_irrelevant\<close> below shows that neither
  can be seen here, the entries having pairwise different tags.)
\<close>

fun insert_entry :: "('a \<Rightarrow> 'a \<Rightarrow> bool) \<Rightarrow> 'a \<Rightarrow> 'a list \<Rightarrow> 'a list" where
  "insert_entry lt x [] = [x]"
| "insert_entry lt x (y # ys) =
     (if lt x y then x # y # ys else y # insert_entry lt x ys)"

definition sort_Slice :: "('a \<Rightarrow> 'a \<Rightarrow> bool) \<Rightarrow> 'a list \<Rightarrow> 'a list" where
  "sort_Slice lt xs = foldr (insert_entry lt) xs []"

definition listTags_find :: "int32 \<Rightarrow> FindMemo" where
  "listTags_find userID =
     (let rowStatus = Normal;
          fnd = FindMemo0\<lparr>Find_ExcludeComments := True,
                           Find_ExcludeContent := True,
                           Find_RowStatus := Some rowStatus\<rparr>
      in applyVisibilityFilter fnd userID)"

definition listTags_entries :: "Memo list \<Rightarrow> tagEntry list" where
  "listTags_entries memos =
     sort_Slice tag_less (map (\<lambda>(tag, count). \<lparr>Tag = tag, Count = count\<rparr>) (count_tags memos))"

definition marshal_tagEntry :: "tagEntry \<Rightarrow> json" where
  "marshal_tagEntry e = JObject [(''tag'', JString (Tag e)), (''count'', JNumber (Count e))]"

definition handleListTags :: "'st Store \<Rightarrow> 'st \<Rightarrow> int32 \<Rightarrow> tool_result" where
  "handleListTags store st userID =
     (case ListMemos store st (listTags_find userID) of
        Inl err \<Rightarrow> ToolResultError (StoreFailure ''failed to list memos'' err)
      | Inr memos \<Rightarrow> ToolResultText (JArray (map marshal_tagEntry (listTags_entries memos))))"

subsection \<open>The memo resource\<close>

definition formatMemoMarkdown :: "memoJSON \<Rightarrow> string" where
  "formatMemoMarkdown j =
     ''---\<newline>''
     @ ''name: '' @ jName j @ ''\<newline>''
     @ ''creator: '' @ jCreator j @ ''\<newline>''
     @ ''visibility: '' @ jVisibility j @ ''\<newline>''
     @ ''state: '' @ jState j @ ''\<newline>''
     @ ''pinned: '' @ format_bool (jPinned j) @ ''\<newline>''
     @ (case jTags j of
          None \<Rightarrow> ''''
        | Some tags \<Rightarrow>
            if length tags > 0 then ''tags: ['' @ Join tags '', '' @ '']\<newline>'' else '''')
     @ ''create_time: '' @ format_d (sint (jCreateTime j)) @ ''\<newline>''
     @ ''update_time: '' @ format_d (sint (jUpdateTime j)) @ ''\<newline>''
     @ (if jParent j \<noteq> '''' then ''parent: '' @ jParent j @ ''\<newline>'' else '''')
     @ ''---\<newline>\<newline>''
     @ jContent j"

datatype resource_error =
    InvalidMemoURI string
  | FailedToGetMemo store_error
  | ResourceMemoNotFound string
  | AccessError tool_error

record TextResourceContents =
  URI :: string
  MIMEType :: string
  Text :: string

definition handleReadMemoResource ::
  "'st Store \<Rightarrow> 'st \<Rightarrow> int32 \<Rightarrow> string \<Rightarrow> resource_error + TextResourceContents list" where
  "handleReadMemoResource store st userID uri =
     (let uid = TrimPrefix uri ''memo://memos/''
      in if uid = uri \<or> uid = '''' then Inl (InvalidMemoURI uri)
         else case GetMemo store st (FindMemo0\<lparr>Find_UID := Some uid\<rparr>) of
                Inl err \<Rightarrow> Inl (FailedToGetMemo err)
              | Inr None \<Rightarrow> Inl (ResourceMemoNotFound uid)
              | Inr (Some memo) \<Rightarrow>
                  (case checkMemoAccess memo userID of
                     Some e \<Rightarrow> Inl (AccessError e)
                   | None \<Rightarrow>
                       (let j = storeMemoToJSON memo;
                            text = formatMemoMarkdown j
                        in Inr [\<lparr>URI = uri, MIMEType = ''text/markdown'', Text = text\<rparr>])))"

subsection \<open>An in-memory store\<close>

text \<open>
  Modelled from the spec: the store collaborator (package \<^verbatim>\<open>store\<close> is not among the
  sources), after the spec's section on external interfaces: memos and comment
  relations held in lists; \<open>GetMemo\<close> by uid or id; \<open>UpdateMemo(id, partialFields)\<close>
  replacing the fields that are given and keeping the others; \<open>DeleteMemo\<close> removing the
  row; \<open>UpsertMemoRelation\<close> adding the relation unless it is there; \<open>ListMemos\<close> keeping
  the rows that meet every constraint of the query (the filter strings, conjoined,
  through a given evaluator \<open>cel\<close>) and then the window \<open>offset\<close>, \<open>limit\<close>. The new
  row's id and timestamps come from counters of the state. The handlers above do not
  depend on this model; it gives the theorems about them a concrete store.
\<close>

record MemStore =
  mem_memos :: "Memo list"
  mem_relations :: "MemoRelation list"
  mem_next_id :: int32
  mem_clock :: int64

definition mem_matches :: "(string \<Rightarrow> Memo \<Rightarrow> bool) \<Rightarrow> FindMemo \<Rightarrow> Memo \<Rightarrow> bool" where
  "mem_matches cel fnd m =
     ((case Find_ID fnd of None \<Rightarrow> True | Some i \<Rightarrow> ID m = i)
      \<and> (case Find_UID fnd of None \<Rightarrow> True | Some u \<Rightarrow> UID m = u)
      \<and> (case Find_RowStatus fnd of None \<Rightarrow> True | Some rs \<Rightarrow> RowStatus m = rs)
      \<and> (Find_VisibilityList fnd = [] \<or> Visibility m \<in> set (Find_VisibilityList fnd))
      \<and> (Find_IDList fnd = [] \<or> ID m \<in> set (Find_IDList fnd))
      \<and> (if Find_ExcludeComments fnd then ParentUID m = None else True)
      \<and> list_all (\<lambda>f. cel f m) (Find_Filters fnd))"

definition mem_GetMemo ::
  "(string \<Rightarrow> Memo \<Rightarrow> bool) \<Rightarrow> MemStore \<Rightarrow> FindMemo \<Rightarrow> store_error + Memo option" where
  "mem_GetMemo cel st fnd = Inr (List.find (mem_matches cel fnd) (mem_memos st))"

definition mem_ListMemos ::
  "(string \<Rightarrow> Memo \<Rightarrow> bool) \<Rightarrow> MemStore \<Rightarrow> FindMemo \<Rightarrow> store_error + Memo list" where
  "mem_ListMemos cel st fnd =
     (let rows = filter (mem_matches cel fnd) (mem_memos st);
          rows = (if Find_ExcludeContent fnd then map (\<lambda>m. m\<lparr>Content := ''''\<rparr>) rows else rows);
          rows = (case Find_Offset fnd of None \<Rightarrow> rows | Some off \<Rightarrow> drop (nat (sint off)) rows);
          rows = (case Find_Limit fnd of None \<Rightarrow> rows | Some lim \<Rightarrow> take (nat (sint lim)) rows)
      in Inr rows)"

definition mem_CreateMemo :: "MemStore \<Rightarrow> Memo \<Rightarrow> (store_error + Memo) \<times> MemStore" where
  "mem_CreateMemo st draft =
     (let m = draft\<lparr>ID := mem_next_id st,
                    CreatedTs := mem_clock st,
                    UpdatedTs := mem_clock st,
                    RowStatus := (if RowStatus draft = '''' then Normal else RowStatus draft)\<rparr>
      in (Inr m, st\<lparr>mem_memos := mem_memos st @ [m], mem_next_id := mem_next_id st + 1\<rparr>))"

definition apply_update :: "UpdateMemo \<Rightarrow> Memo \<Rightarrow> Memo" where
  "apply_update u m =
     m\<lparr>RowStatus := (case Update_RowStatus u of None \<Rightarrow> RowStatus m | Some rs \<Rightarrow> rs),
       Content := (case Update_Content u of None \<Rightarrow> Content m | Some c \<Rightarrow> c),
       Visibility := (case Update_Visibility u of None \<Rightarrow> Visibility m | Some v \<Rightarrow> v),
       Pinned := (case Update_Pinned u of None \<Rightarrow> Pinned m | Some p \<Rightarrow> p),
       Payload := (case Update_Payload u of None \<Rightarrow> Payload m | Some p \<Rightarrow> Some p)\<rparr>"

definition mem_UpdateMemo :: "MemStore \<Rightarrow> UpdateMemo \<Rightarrow> store_error option \<times> MemStore" where
  "mem_UpdateMemo st u =
     (None, st\<lparr>mem_memos := map (\<lambda>m. if ID m = Update_ID u then apply_update u m else m)
                                  (mem_memos st)\<rparr>)"

definition mem_DeleteMemo :: "MemStore \<Rightarrow> int32 \<Rightarrow> store_error option \<times> MemStore" where
  "mem_DeleteMemo st i = (None, st\<lparr>mem_memos := filter (\<lambda>m. ID m \<noteq> i) (mem_memos st)\<rparr>)"

definition mem_UpsertMemoRelation ::
  "MemStore \<Rightarrow> MemoRelation \<Rightarrow> (store_error + MemoRelation) \<times> MemStore" where
  "mem_UpsertMemoRelation st r =
     (Inr r, st\<lparr>mem_relations := (if r \<in> set (mem_relations st) then mem_relations st
                                    else mem_relations st @ [r])\<rparr>)"

definition mem_store :: "(string \<Rightarrow> Memo \<Rightarrow> bool) \<Rightarrow> MemStore Store" where
  "mem_store cel =
     \<lparr>GetMemo = mem_GetMemo cel,
      ListMemos = mem_ListMemos cel,
      CreateMemo = mem_CreateMemo,
      UpdateMemo = mem_UpdateMemo,
      DeleteMemo = mem_DeleteMemo,
      UpsertMemoRelation = mem_UpsertMemoRelation\<rparr>"

text \<open>
  Sample data: user 1's private memo with one tag, and a public memo of user 2; an
  evaluator that accepts every filter string.
\<close>

definition memo_a :: Memo where
  "memo_a =
     \<lparr>ID = 1, UID = ''a1'', RowStatus = Normal, CreatorID = 1, CreatedTs = 100,
      UpdatedTs = 100, Content = ''draft #old'', Visibility = Private, Pinned = False,
      Payload = Some \<lparr>Tags = [''old''], Property = None\<rparr>, ParentUID = None\<rparr>"

definition memo_b :: Memo where
  "memo_b =
     \<lparr>ID = 2, UID = ''b2'', RowStatus = Normal, CreatorID = 2, CreatedTs = 150,
      UpdatedTs = 160, Content = ''shared #go #old'', Visibility = Public, Pinned = True,
      Payload = Some \<lparr>Tags = [''go'', ''old''], Property = None\<rparr>, ParentUID = None\<rparr>"

definition sample_state :: MemStore where
  "sample_state =
     \<lparr>mem_memos = [memo_a, memo_b], mem_relations = [], mem_next_id = 3, mem_clock = 200\<rparr>"

definition any_filter :: "string \<Rightarrow> Memo \<Rightarrow> bool" where
  "any_filter f m = True"

text \<open>
  The verb \<^verbatim>\<open>%q\<close> on the strings of the examples, which hold nothing to escape: the
  string between double quotes.
\<close>

definition sample_quote :: "string \<Rightarrow> string" where
  "sample_quote s = ''\"'' @ s @ ''\"''"

text \<open>
  On the in-memory store: user 1 comments on user 2's public memo. The comment is
  public, its creator is user 1, and the state gains the comment and one relation.
\<close>

definition comment_c3 :: Memo where
  "comment_c3 =
     \<lparr>ID = 3, UID = ''c3'', RowStatus = Normal, CreatorID = 1, CreatedTs = 200,
      UpdatedTs = 200, Content = ''nice #idea'', Visibility = Public, Pinned = False,
      Payload = Some \<lparr>Tags = [''idea''], Property = None\<rparr>, ParentUID = Some ''b2''\<rparr>"

subsection \<open>The tag rule, as the specification words it\<close>

text \<open>
  A tag occurrence is a \<^verbatim>\<open>#\<close> that stands at the start of the text or right after a
  whitespace character and is followed by a letter; its tag is the longest run of
  characters after the \<^verbatim>\<open>#\<close> that are neither whitespace nor \<^verbatim>\<open>#\<close>.
  \<open>tag_occurrences pre s\<close> lists the tags of the occurrences in \<open>s\<close> from left to right,
  \<open>pre\<close> telling whether \<open>s\<close> begins at the start of the text or after whitespace.
\<close>

fun tag_occurrences :: "bool \<Rightarrow> string \<Rightarrow> string list" where
  "tag_occurrences pre [] = []"
| "tag_occurrences pre (c # cs) =
     (if pre \<and> c = CHR ''#'' \<and> (case cs of [] \<Rightarrow> False | l # _ \<Rightarrow> is_letter l)
      then [takeWhile is_tag_char cs] else [])
     @ tag_occurrences (is_space c) cs"

text \<open>Each element once, at the place of its first occurrence.\<close>

definition first_occurrences :: "'a list \<Rightarrow> 'a list" where
  "first_occurrences xs = rev (remdups (rev xs))"

subsection \<open>Other notions of the specification\<close>

text \<open>The caller-supplied filter expression of a list call: a clause when it is not empty.\<close>

definition caller_filter :: "arguments \<Rightarrow> string list" where
  "caller_filter req =
     (if GetString req ''filter'' '''' = '''' then [] else [GetString req ''filter'' ''''])"

text \<open>
  The page size as the specification words it: 20 when none is given, otherwise the
  given size clamped to the range from 1 to 100.
\<close>

definition claimed_pageSize :: "arguments \<Rightarrow> int" where
  "claimed_pageSize req =
     (case req ''page_size'' of
        None \<Rightarrow> 20
      | Some v \<Rightarrow> max 1 (min 100 (sint (GetInt req ''page_size'' 20))))"

text \<open>
  The metadata header of a memo's document, field by field: the tag list only when
  there are tags, the parent reference only when there is a parent.
\<close>

definition header_fields :: "Memo \<Rightarrow> (string \<times> string) list" where
  "header_fields m =
     [(''name'', ''memos/'' @ UID m),
      (''creator'', ''users/'' @ format_d (sint (CreatorID m))),
      (''visibility'', Visibility m),
      (''state'', RowStatus m),
      (''pinned'', format_bool (Pinned m))]
     @ (case Payload m of
          None \<Rightarrow> []
        | Some p \<Rightarrow> if Tags p = [] then [] else [(''tags'', ''['' @ Join (Tags p) '', '' @ '']'')])
     @ [(''create_time'', format_d (sint (CreatedTs m))),
        (''update_time'', format_d (sint (UpdatedTs m)))]
     @ (case ParentUID m of None \<Rightarrow> [] | Some u \<Rightarrow> [(''parent'', ''memos/'' @ u)])"

text \<open>
  The document: the header between two delimiter lines, one line per field, then a
  blank line and the content as it is.
\<close>

definition memo_document :: "Memo \<Rightarrow> string" where
  "memo_document m =
     ''---\<newline>''
     @ concat (map (\<lambda>(k, v). k @ '': '' @ v @ ''\<newline>'') (header_fields m))
     @ ''---\<newline>''
     @ ''\<newline>''
     @ Content m"

text \<open>
  The number of times a tag stands in the payload tag lists of the given memos; a memo
  without payload adds nothing.
\<close>

definition tag_count :: "Memo list \<Rightarrow> string \<Rightarrow> int" where
  "tag_count memos tag =
     (\<Sum>m\<leftarrow>memos. case Payload m of None \<Rightarrow> 0 | Some p \<Rightarrow> int (count_list (Tags p) tag))"

text \<open>Auxiliary notions of the proofs about \<open>count_tags\<close>.\<close>

definition cnt :: "(string \<times> int) list \<Rightarrow> string \<Rightarrow> int" where
  "cnt kvs t = (case map_of kvs t of None \<Rightarrow> 0 | Some n \<Rightarrow> n)"

definition counts_ok :: "(string \<times> int) list \<Rightarrow> bool" where
  "counts_ok kvs = (distinct (map fst kvs) \<and> list_all (\<lambda>(k, n). 0 < n) kvs)"

definition count_step :: "(string \<times> int) list \<Rightarrow> Memo \<Rightarrow> (string \<times> int) list" where
  "count_step counts m =
     (case Payload m of None \<Rightarrow> counts | Some payload \<Rightarrow> foldl bump counts (Tags payload))"

text \<open>
  An evaluator of filter strings for the in-memory store that reads user \<open>u\<close>'s policy
  clause as the specification words it and accepts every other filter.
\<close>

definition cel_for :: "int32 \<Rightarrow> string \<Rightarrow> Memo \<Rightarrow> bool" where
  "cel_for u f m =
     (if f = policy_clause u
      then CreatorID m = u \<or> Visibility m = Public \<or> Visibility m = Protected
      else True)"

section \<open>Properties\<close>

subsection \<open>Read access\<close>

text \<open>
  C1. For every memo \<open>m\<close> and caller \<open>c\<close> (the caller's numeric identity, 0 for the
  anonymous caller, as \<^verbatim>\<open>checkMemoAccess\<close> receives it), the check grants access (returns
  no error) if and only if the visibility is PUBLIC, or it is PROTECTED and the caller
  is not anonymous, or it is PRIVATE and the caller's identity equals the memo's creator
  identity, or it is none of the three known values. The only error it returns is
  "permission denied".
\<close>

theorem checkMemoAccess_iff:
  "(checkMemoAccess m c = None) =
     (Visibility m = Public
      \<or> (Visibility m = Protected \<and> c \<noteq> 0)
      \<or> (Visibility m = Private \<and> c = CreatorID m)
      \<or> (Visibility m \<noteq> Public \<and> Visibility m \<noteq> Protected \<and> Visibility m \<noteq> Private))
   \<and> (checkMemoAccess m c = None \<or> checkMemoAccess m c = Some PermissionDenied)"
  by (auto simp: checkMemoAccess_def Public_def Protected_def Private_def)

theorem checkMemoAccess_iff_witness:
  "checkMemoAccess memo_a 1 = None
   \<and> checkMemoAccess memo_a 2 = Some PermissionDenied
   \<and> checkMemoAccess (memo_a\<lparr>Visibility := Protected\<rparr>) 0 = Some PermissionDenied
   \<and> checkMemoAccess (memo_a\<lparr>Visibility := ''UNLISTED''\<rparr>) 0 = None"
proof -
  have "checkMemoAccess memo_a 1 = None"
    using checkMemoAccess_iff [of memo_a 1]
    by (auto simp: memo_a_def Public_def Protected_def Private_def)
  moreover have "checkMemoAccess memo_a 2 = Some PermissionDenied"
    using checkMemoAccess_iff [of memo_a 2]
    by (auto simp: memo_a_def Public_def Protected_def Private_def)
  moreover have "checkMemoAccess (memo_a\<lparr>Visibility := Protected\<rparr>) 0 = Some PermissionDenied"
    using checkMemoAccess_iff [of "memo_a\<lparr>Visibility := Protected\<rparr>" 0]
    by (auto simp: Public_def Protected_def Private_def)
  moreover have "checkMemoAccess (memo_a\<lparr>Visibility := ''UNLISTED''\<rparr>) 0 = None"
    using checkMemoAccess_iff [of "memo_a\<lparr>Visibility := ''UNLISTED''\<rparr>" 0]
    by (auto simp: Public_def Protected_def Private_def)
  ultimately show ?thesis by simp
qed

subsection \<open>Tag extraction\<close>

lemma is_letter_tag_char: "is_letter c \<Longrightarrow> is_tag_char c"
  by (auto simp: is_letter_def is_tag_char_def is_space_def)

lemma tag_occurrences_skip:
  "tag_occurrences False (dropWhile is_tag_char cs) = tag_occurrences False cs"
  by (induction cs) (auto simp: is_tag_char_def)

lemma tag_occurrences_True:
  "tag_occurrences True cs =
     (case match_body cs of Some (t, r) \<Rightarrow> [t] | None \<Rightarrow> []) @ tag_occurrences False cs"
proof (cases cs)
  case Nil
  then show ?thesis by simp
next
  case (Cons h t)
  then show ?thesis
    by (cases t) (auto simp: is_letter_tag_char)
qed

lemma match_body_rest:
  "match_body cs = Some (t, r) \<Longrightarrow> tag_occurrences False cs = tag_occurrences False r"
proof (induction cs rule: match_body.induct)
  case (1 h l cs)
  then show ?case
    using is_letter_tag_char [of l]
    by (auto simp: tag_occurrences_skip is_tag_char_def is_space_def split: if_splits)
qed simp_all

lemma FindAll_tag_occurrences:
  "FindAllStringSubmatch beg s = tag_occurrences beg s"
proof (induction beg s rule: FindAllStringSubmatch.induct)
  case (1 beg s)
  show ?case
  proof (cases "match_at beg s")
    case None
    show ?thesis
    proof (cases s)
      case Nil
      with None show ?thesis by (simp add: FindAllStringSubmatch.simps [of beg "[]"])
    next
      case (Cons c cs)
      have ih: "FindAllStringSubmatch False cs = tag_occurrences False cs"
        using 1(1) [OF None Cons] .
      have nb: "beg \<Longrightarrow> match_body s = None"
        using None by (auto simp: match_at_def split: option.splits)
      have ns: "is_space c \<Longrightarrow> match_body cs = None"
        using None Cons by (auto simp: match_at_def split: option.splits if_splits)
      have hd: "\<not> (beg \<and> c = CHR ''#'' \<and> (case cs of [] \<Rightarrow> False | l # _ \<Rightarrow> is_letter l))"
        using nb Cons by (cases cs) auto
      have "tag_occurrences beg s = tag_occurrences (is_space c) cs"
        using hd Cons by simp
      also have "\<dots> = tag_occurrences False cs"
        using ns by (cases "is_space c") (simp_all add: tag_occurrences_True)
      finally show ?thesis
        using None Cons ih by (simp add: FindAllStringSubmatch.simps [of beg s])
    qed
  next
    case (Some p)
    obtain tag rest where p: "p = (tag, rest)" by (cases p)
    have ih: "FindAllStringSubmatch False rest = tag_occurrences False rest"
      using 1(2) [OF Some [unfolded p] refl] .
    have "tag_occurrences beg s = tag # tag_occurrences False rest"
    proof (cases "beg \<and> match_body s \<noteq> None")
      case True
      then have mb: "match_body s = Some (tag, rest)"
        using Some p by (auto simp: match_at_def split: option.splits)
      with True show ?thesis
        using match_body_rest [OF mb] by (simp add: tag_occurrences_True)
    next
      case False
      then obtain c cs where s: "s = c # cs" and sp: "is_space c"
        and mb: "match_body cs = Some (tag, rest)"
        using Some p
        by (auto simp: match_at_def split: option.splits list.splits if_splits)
      have "c \<noteq> CHR ''#''" using sp by (auto simp: is_space_def)
      then show ?thesis
        using s sp mb match_body_rest [OF mb] by (simp add: tag_occurrences_True)
    qed
    then show ?thesis
      using Some p ih by (simp add: FindAllStringSubmatch.simps [of beg s])
  qed
qed

lemma extractTags_loop_first:
  "distinct tags \<Longrightarrow> seen = set tags \<Longrightarrow>
   extractTags_loop seen tags ms = first_occurrences (tags @ ms)"
proof (induction ms arbitrary: seen tags)
  case Nil
  then show ?case by (simp add: first_occurrences_def distinct_remdups_id)
next
  case (Cons m ms)
  show ?case
  proof (cases "m \<in> seen")
    case True
    have "remdups (rev ms @ m # rev tags) = remdups (rev ms @ remdups (m # rev tags))"
      by (simp only: remdups_append2)
    also have "\<dots> = remdups (rev ms @ remdups (rev tags))"
      using True Cons.prems by simp
    also have "\<dots> = remdups (rev ms @ rev tags)"
      by (simp only: remdups_append2)
    finally have "first_occurrences (tags @ m # ms) = first_occurrences (tags @ ms)"
      by (simp add: first_occurrences_def)
    with True Cons show ?thesis by simp
  next
    case False
    have "extractTags_loop (insert m seen) (tags @ [m]) ms = first_occurrences ((tags @ [m]) @ ms)"
      using False Cons.prems by (intro Cons.IH) auto
    with False show ?thesis by simp
  qed
qed

lemma extractTags_first_occurrences:
  "extractTags s = first_occurrences (tag_occurrences True s)"
  using extractTags_loop_first [of "[]" "{}"]
  by (simp add: extractTags_def FindAll_tag_occurrences del: FindAllStringSubmatch.simps)

lemma extractTags_example:
  "extractTags ''hello #world, #Go-lang #a1'' = [''world,'', ''Go-lang'', ''a1'']"
  by (simp add: extractTags_def match_at_def is_space_def is_letter_def is_tag_char_def)

text \<open>
  C6, as stated, fails at its own example: the comma after \<^verbatim>\<open>#world\<close> is neither
  whitespace nor \<^verbatim>\<open>#\<close>, so it belongs to the tag.
\<close>

theorem extractTags_example_counterexample:
  "extractTags ''hello #world, #Go-lang #a1'' \<noteq> [''world'', ''Go-lang'', ''a1'']"
  by (simp add: extractTags_example)

text \<open>
  C6 (amended). For every input string, tag extraction returns exactly the tags of the
  occurrences of the rule (a \<^verbatim>\<open>#\<close> at the start of the text or right after whitespace,
  followed by a letter; the tag is the longest run of non-whitespace, non-\<^verbatim>\<open>#\<close>
  characters after the \<^verbatim>\<open>#\<close>), in order of first appearance, each once, compared
  as they are written. In particular the example text yields \<^verbatim>\<open>world,\<close> (with the
  comma), \<^verbatim>\<open>Go-lang\<close> and \<^verbatim>\<open>a1\<close>; a bare \<^verbatim>\<open>#\<close> and \<^verbatim>\<open>#1abc\<close> yield no tag; and
  \<^verbatim>\<open>#Go\<close> and \<^verbatim>\<open>#go\<close> are two tags.
\<close>

theorem extractTags_rule:
  "extractTags s = first_occurrences (tag_occurrences True s)
   \<and> extractTags ''hello #world, #Go-lang #a1'' = [''world,'', ''Go-lang'', ''a1'']
   \<and> extractTags ''#'' = []
   \<and> extractTags ''#1abc'' = []
   \<and> extractTags ''#Go #go #Go'' = [''Go'', ''go'']"
proof -
  have "extractTags ''#'' = []"
    by (simp add: extractTags_def match_at_def is_space_def is_letter_def is_tag_char_def)
  moreover have "extractTags ''#1abc'' = []"
    by (simp add: extractTags_def match_at_def is_space_def is_letter_def is_tag_char_def)
  moreover have "extractTags ''#Go #go #Go'' = [''Go'', ''go'']"
    by (simp add: extractTags_def match_at_def is_space_def is_letter_def is_tag_char_def)
  ultimately show ?thesis
    by (simp add: extractTags_first_occurrences [symmetric] extractTags_example)
qed

subsection \<open>The serialized memo\<close>

lemma json_field_tags:
  "json_field (marshal_memoJSON (storeMemoToJSON m)) ''tags'' =
     Some (JArray (map JString (case Payload m of None \<Rightarrow> [] | Some p \<Rightarrow> Tags p)))"
  by (simp add: json_field_def marshal_memoJSON_def storeMemoToJSON_def marshal_strings_def
      Let_def split: option.splits)

lemma json_field_property:
  "json_field (marshal_memoJSON (storeMemoToJSON m)) ''property'' =
     (case Payload m of
        None \<Rightarrow> None
      | Some p \<Rightarrow>
          (case Property p of
             None \<Rightarrow> None
           | Some pr \<Rightarrow>
               if HasLink pr \<or> HasTaskList pr \<or> HasCode pr \<or> HasIncompleteTasks pr
               then Some (JObject [(''has_link'', JBool (HasLink pr)),
                                   (''has_task_list'', JBool (HasTaskList pr)),
                                   (''has_code'', JBool (HasCode pr)),
                                   (''has_incomplete_tasks'', JBool (HasIncompleteTasks pr))])
               else None))"
  by (simp add: json_field_def marshal_memoJSON_def storeMemoToJSON_def marshal_strings_def
      marshal_propertyJSON_def Let_def split: option.splits)

lemma json_field_parent:
  "json_field (marshal_memoJSON (storeMemoToJSON m)) ''parent'' =
     (case ParentUID m of None \<Rightarrow> None | Some u \<Rightarrow> Some (JString (''memos/'' @ u)))"
  by (simp add: json_field_def marshal_memoJSON_def storeMemoToJSON_def marshal_strings_def
      marshal_propertyJSON_def Let_def split: option.splits)

lemma json_field_content:
  "json_field (marshal_memoJSON (storeMemoToJSON m)) ''content'' =
     (if Content m = '''' then None else Some (JString (Content m)))"
  by (simp add: json_field_def marshal_memoJSON_def storeMemoToJSON_def marshal_strings_def
      marshal_propertyJSON_def Let_def split: option.splits)

text \<open>
  C10. In the serialized form of every memo: the member \<^verbatim>\<open>tags\<close> is there and is an
  array, the payload's tags, and the empty array when the payload is absent or has no
  tags (never null); the member \<^verbatim>\<open>property\<close> is there exactly when the payload has a
  property with at least one of the four flags set, and then holds the four flags; the
  member \<^verbatim>\<open>parent\<close> is there exactly when the memo has a parent reference; the member
  \<^verbatim>\<open>content\<close> is left out exactly when the content is the empty string.
\<close>

theorem serialized_memo_shape:
  "json_field (marshal_memoJSON (storeMemoToJSON m)) ''tags'' =
     Some (JArray (map JString (case Payload m of None \<Rightarrow> [] | Some p \<Rightarrow> Tags p)))
   \<and> json_field (marshal_memoJSON (storeMemoToJSON m)) ''property'' =
     (case Payload m of
        None \<Rightarrow> None
      | Some p \<Rightarrow>
          (case Property p of
             None \<Rightarrow> None
           | Some pr \<Rightarrow>
               if HasLink pr \<or> HasTaskList pr \<or> HasCode pr \<or> HasIncompleteTasks pr
               then Some (JObject [(''has_link'', JBool (HasLink pr)),
                                   (''has_task_list'', JBool (HasTaskList pr)),
                                   (''has_code'', JBool (HasCode pr)),
                                   (''has_incomplete_tasks'', JBool (HasIncompleteTasks pr))])
               else None))
   \<and> json_field (marshal_memoJSON (storeMemoToJSON m)) ''parent'' =
     (case ParentUID m of None \<Rightarrow> None | Some u \<Rightarrow> Some (JString (''memos/'' @ u)))
   \<and> json_field (marshal_memoJSON (storeMemoToJSON m)) ''content'' =
     (if Content m = '''' then None else Some (JString (Content m)))"
  using json_field_tags [of m] json_field_property [of m] json_field_parent [of m]
    json_field_content [of m]
  by (intro conjI) assumption+

theorem serialized_memo_shape_witness:
  "json_field (marshal_memoJSON (storeMemoToJSON (memo_b\<lparr>Payload := None, Content := ''''\<rparr>)))
      ''tags'' = Some (JArray [])
   \<and> json_field (marshal_memoJSON (storeMemoToJSON (memo_b\<lparr>Payload := None, Content := ''''\<rparr>)))
      ''content'' = None
   \<and> json_field (marshal_memoJSON (storeMemoToJSON (memo_b\<lparr>Payload := None, Content := ''''\<rparr>)))
      ''property'' = None
   \<and> json_field (marshal_memoJSON (storeMemoToJSON comment_c3)) ''parent''
       = Some (JString ''memos/b2'')
   \<and> json_field (marshal_memoJSON (storeMemoToJSON comment_c3)) ''tags''
       = Some (JArray [JString ''idea''])
   \<and> json_field
       (marshal_memoJSON
          (storeMemoToJSON
             (memo_b\<lparr>Payload := Some \<lparr>Tags = [], Property =
                Some \<lparr>HasLink = False, HasTaskList = False, HasCode = False,
                      HasIncompleteTasks = False\<rparr>\<rparr>\<rparr>)))
       ''property'' = None"
  using serialized_memo_shape [of "memo_b\<lparr>Payload := None, Content := ''''\<rparr>"]
    serialized_memo_shape [of comment_c3]
    serialized_memo_shape [of "memo_b\<lparr>Payload := Some \<lparr>Tags = [], Property =
                Some \<lparr>HasLink = False, HasTaskList = False, HasCode = False,
                      HasIncompleteTasks = False\<rparr>\<rparr>\<rparr>"]
  by (simp add: comment_c3_def)

subsection \<open>The sample store\<close>

lemma sample_get_a1:
  "GetMemo (mem_store cel) sample_state (FindMemo0\<lparr>Find_UID := Some ''a1''\<rparr>) = Inr (Some memo_a)"
  by (simp add: mem_store_def mem_GetMemo_def sample_state_def mem_matches_def FindMemo0_def
      memo_a_def)

lemma sample_get_b2:
  "GetMemo (mem_store cel) sample_state (FindMemo0\<lparr>Find_UID := Some ''b2''\<rparr>) = Inr (Some memo_b)"
  by (simp add: mem_store_def mem_GetMemo_def sample_state_def mem_matches_def FindMemo0_def
      memo_a_def memo_b_def)

lemma sample_get_none:
  "GetMemo (mem_store cel) sample_state (FindMemo0\<lparr>Find_UID := Some ''zz''\<rparr>) = Inr None"
  by (simp add: mem_store_def mem_GetMemo_def sample_state_def mem_matches_def FindMemo0_def
      memo_a_def memo_b_def)

lemma parse_name_a1:
  "req ''name'' = Some (AString ''memos/a1'') \<Longrightarrow>
     parseMemoUID (GetString req ''name'' '''') = Inr ''a1''"
  by (simp add: parseMemoUID_def GetString_def CutPrefix_def HasPrefix_def)

lemma parse_name_b2:
  "req ''name'' = Some (AString ''memos/b2'') \<Longrightarrow>
     parseMemoUID (GetString req ''name'' '''') = Inr ''b2''"
  by (simp add: parseMemoUID_def GetString_def CutPrefix_def HasPrefix_def)

lemma parse_name_zz:
  "req ''name'' = Some (AString ''memos/zz'') \<Longrightarrow>
     parseMemoUID (GetString req ''name'' '''') = Inr ''zz''"
  by (simp add: parseMemoUID_def GetString_def CutPrefix_def HasPrefix_def)

subsection \<open>Decimal numerals\<close>

text \<open>
  The numeral that \<^verbatim>\<open>%d\<close> writes reads back, through \<^verbatim>\<open>strconv.Atoi\<close>, as the number
  written: the numeral in a policy clause names the caller and nobody else.
\<close>

lemma digit_val_digit_char: "d < 10 \<Longrightarrow> digit_val (digit_char d) = Some d"
proof -
  assume "d < 10"
  then have "d \<in> {0, 1, 2, 3, 4, 5, 6, 7, 8, 9}" by auto
  then show ?thesis
    by (auto simp: digit_val_def digit_char_def)
qed

lemma parse_digits_append:
  "parse_digits acc (xs @ ys) =
     (case parse_digits acc xs of None \<Rightarrow> None | Some a \<Rightarrow> parse_digits a ys)"
  by (induction xs arbitrary: acc) (auto split: option.splits)

lemma parse_digits_format_nat: "parse_digits 0 (format_nat n) = Some n"
proof (induction n rule: format_nat.induct)
  case (1 n)
  show ?case
  proof (cases "n < 10")
    case True
    then show ?thesis
      by (subst format_nat.simps) (simp add: digit_val_digit_char)
  next
    case False
    have m: "n mod 10 < 10" by simp
    have "parse_digits 0 (format_nat n)
            = parse_digits 0 (format_nat (n div 10) @ [digit_char (n mod 10)])"
      using False by (subst format_nat.simps) simp
    also have "\<dots> = parse_digits (n div 10) [digit_char (n mod 10)]"
      using 1 False by (simp add: parse_digits_append)
    also have "\<dots> = Some n"
      using m by (simp add: digit_val_digit_char)
    finally show ?thesis .
  qed
qed

lemma parse_digits_all_digits:
  "parse_digits acc s = Some v \<Longrightarrow> c \<in> set s \<Longrightarrow> digit_val c \<noteq> None"
  by (induction s arbitrary: acc) (auto split: option.splits)

lemma format_nat_nonempty: "format_nat n \<noteq> []"
  by (subst format_nat.simps) simp

lemma Atoi_format_d:
  assumes "- (2 ^ 63) \<le> i" and "i < 2 ^ 63"
  shows "Atoi (format_d i) = Some (word_of_int i)"
proof (cases "i < 0")
  case True
  then show ?thesis
    using assms
    by (simp add: Atoi_def format_d_def format_nat_nonempty parse_digits_format_nat)
next
  case False
  obtain c cs where s: "format_nat (nat i) = c # cs"
    using format_nat_nonempty [of "nat i"] by (cases "format_nat (nat i)") auto
  have "digit_val c \<noteq> None"
    using parse_digits_all_digits [OF parse_digits_format_nat, of c "nat i"] s by simp
  then have c: "c \<noteq> CHR ''-''" "c \<noteq> CHR ''+''"
    by (auto simp: digit_val_def)
  have p: "parse_digits 0 (c # cs) = Some (nat i)"
    using parse_digits_format_nat [of "nat i"] s by simp
  show ?thesis
    using False assms c p
    by (simp add: Atoi_def format_d_def s del: parse_digits.simps)
qed

lemma Atoi_caller:
  "map_option sint (Atoi (format_d (sint (u :: int32)))) = Some (sint u)"
proof -
  have lo: "- (2 ^ 31) \<le> sint u" using sint_ge [of u] by simp
  have hi: "sint u < 2 ^ 31" using sint_lt [of u] by simp
  have "Atoi (format_d (sint u)) = Some (word_of_int (sint u))"
    using lo hi by (intro Atoi_format_d) simp_all
  moreover have "sint (word_of_int (sint u) :: int64) = sint u"
    using lo hi by (subst sint_sbintrunc') (simp add: signed_take_bit_int_eq_self)
  ultimately show ?thesis by simp
qed

subsection \<open>The list query\<close>

lemma list_pageSize_eq:
  "list_pageSize req =
     (let r = GetInt req ''page_size'' 20
      in if sint r \<le> 0 then 20 else if 100 < sint r then 100 else r)"
  by (simp add: list_pageSize_def Let_def)

lemma list_pageSize_range: "1 \<le> sint (list_pageSize req) \<and> sint (list_pageSize req) \<le> 100"
  by (simp add: list_pageSize_eq Let_def)

lemma list_page_nonneg: "0 \<le> sint (list_page req)"
  by (simp add: list_page_def Let_def)

lemma GetInt_absent: "req key = None \<Longrightarrow> GetInt req key d = d"
  by (simp add: GetInt_def)

lemma list_find_clauses:
  "list_find userID req = Inr f \<Longrightarrow>
     Find_VisibilityList f = (if userID = 0 then [Public] else [])
     \<and> Find_Filters f = (if userID = 0 then [] else [policy_clause userID]) @ caller_filter req"
  by (auto simp: list_find_def applyVisibilityFilter_def FindMemo0_def caller_filter_def Let_def
      split: if_splits sum.splits)

lemma list_find_window:
  "list_find userID req = Inr f \<Longrightarrow>
     Find_Limit f = Some (list_pageSize req + 1)
     \<and> Find_Offset f = Some (list_page req * list_pageSize req)"
  by (auto simp: list_find_def applyVisibilityFilter_def FindMemo0_def Let_def
      split: if_splits sum.splits)

lemma handleListMemos_page:
  assumes "list_find userID req = Inr f" and "ListMemos store st f = Inr memos"
  shows "handleListMemos store st userID req =
           ToolResultText
             (JObject [(''memos'', JArray (map (\<lambda>m. marshal_memoJSON (storeMemoToJSON m))
                                              (take (nat (sint (list_pageSize req))) memos))),
                       (''has_more'', JBool (nat (sint (list_pageSize req)) < length memos))])"
proof -
  have pos: "0 \<le> sint (list_pageSize req)"
    using list_pageSize_range [of req] by simp
  have hm: "(sint (list_pageSize req) < int (length memos)) =
            (nat (sint (list_pageSize req)) < length memos)"
    using pos by auto
  show ?thesis
    using assms hm by (simp add: handleListMemos_def Let_def comp_def)
qed

subsection \<open>The row-level visibility filter\<close>

lemma policy_clause_text:
  "policy_clause userID =
     ''creator_id == '' @ format_d (sint userID)
       @ '' || visibility in [\"PUBLIC\", \"PROTECTED\"]''"
  by (rule policy_clause_def)

lemma handleSearchMemos_query:
  "GetString req ''query'' '''' \<noteq> '''' \<Longrightarrow>
     handleSearchMemos store quote st userID req =
       (case ListMemos store st (search_find quote userID (GetString req ''query'' '''')) of
          Inl err \<Rightarrow> ToolResultError (StoreFailure ''failed to search memos'' err)
        | Inr memos \<Rightarrow>
            ToolResultText (JArray (map (\<lambda>m. marshal_memoJSON (storeMemoToJSON m)) memos)))"
  by (simp add: handleSearchMemos_def Let_def comp_def split: sum.splits)

text \<open>
  C2. The row-level visibility filter, with its clause written out. For the anonymous
  caller \<^verbatim>\<open>applyVisibilityFilter\<close> sets the visibility list of the query to PUBLIC
  alone and leaves the filter list as it was; for an authenticated caller it leaves the
  visibility list as it was and appends to the filter list the one clause
  \<^verbatim>\<open>creator_id == N || visibility in ["PUBLIC", "PROTECTED"]\<close>, where \<open>N\<close> is the
  decimal numeral of the caller's identity: read back as a number it is that identity.

  The three bulk handlers put this filter on the query they send to the store, and answer
  from the rows the store returns for that query:
  \<^item> list: the query has the visibility list \<open>[PUBLIC]\<close> and no policy clause for the
    anonymous caller, no visibility list and the policy clause for an authenticated one;
    the caller's own filter expression, when not empty, is one more element of the filter
    list, after the policy clause, which stays as it is; the response holds rows of the
    store's answer to this query;
  \<^item> search: the filter list is the content clause followed by the policy clause (for an
    authenticated caller), the visibility list as for list; the response is the store's
    answer to this query, row by row;
  \<^item> list-tags: the filter list is the policy clause alone (for an authenticated caller),
    the visibility list as for list; the response is computed from the store's answer to
    this query.

  (The store, which is not part of this layer, evaluates the elements of the filter list
  as a conjunction.)
\<close>

theorem visibility_filter_clauses:
  "Find_VisibilityList (applyVisibilityFilter fnd userID) =
     (if userID = 0 then [''PUBLIC''] else Find_VisibilityList fnd)
   \<and> Find_Filters (applyVisibilityFilter fnd userID) =
     (if userID = 0 then Find_Filters fnd
      else Find_Filters fnd
           @ [''creator_id == '' @ format_d (sint userID)
                @ '' || visibility in [\"PUBLIC\", \"PROTECTED\"]''])
   \<and> map_option sint (Atoi (format_d (sint userID))) = Some (sint userID)
   \<and> (\<forall>f. list_find userID req = Inr f \<longrightarrow>
         Find_VisibilityList f = (if userID = 0 then [''PUBLIC''] else [])
         \<and> Find_Filters f =
             (if userID = 0 then []
              else [''creator_id == '' @ format_d (sint userID)
                      @ '' || visibility in [\"PUBLIC\", \"PROTECTED\"]''])
             @ (if GetString req ''filter'' '''' = '''' then []
                else [GetString req ''filter'' ''''])
         \<and> (\<forall>memos. ListMemos store st f = Inr memos \<longrightarrow>
               handleListMemos store st userID req =
                 ToolResultText
                   (JObject
                      [(''memos'',
                        JArray (map (\<lambda>m. marshal_memoJSON (storeMemoToJSON m))
                                  (take (nat (sint (list_pageSize req))) memos))),
                       (''has_more'', JBool (nat (sint (list_pageSize req)) < length memos))])))
   \<and> Find_VisibilityList (search_find quote userID query) =
        (if userID = 0 then [''PUBLIC''] else [])
   \<and> Find_Filters (search_find quote userID query) =
        [''content.contains('' @ quote query @ '')'']
        @ (if userID = 0 then []
           else [''creator_id == '' @ format_d (sint userID)
                   @ '' || visibility in [\"PUBLIC\", \"PROTECTED\"]''])
   \<and> (GetString req ''query'' '''' \<noteq> '''' \<longrightarrow>
         handleSearchMemos store quote st userID req =
           (case ListMemos store st (search_find quote userID (GetString req ''query'' '''')) of
              Inl err \<Rightarrow> ToolResultError (StoreFailure ''failed to search memos'' err)
            | Inr memos \<Rightarrow>
                ToolResultText
                  (JArray (map (\<lambda>m. marshal_memoJSON (storeMemoToJSON m)) memos))))
   \<and> Find_VisibilityList (listTags_find userID) = (if userID = 0 then [''PUBLIC''] else [])
   \<and> Find_Filters (listTags_find userID) =
        (if userID = 0 then []
         else [''creator_id == '' @ format_d (sint userID)
                 @ '' || visibility in [\"PUBLIC\", \"PROTECTED\"]''])
   \<and> handleListTags store st userID =
        (case ListMemos store st (listTags_find userID) of
           Inl err \<Rightarrow> ToolResultError (StoreFailure ''failed to list memos'' err)
         | Inr memos \<Rightarrow> ToolResultText (JArray (map marshal_tagEntry (listTags_entries memos))))"
proof -
  have a: "Find_VisibilityList (applyVisibilityFilter fnd userID) =
     (if userID = 0 then [''PUBLIC''] else Find_VisibilityList fnd)"
    by (simp add: applyVisibilityFilter_def Public_def)
  have b: "Find_Filters (applyVisibilityFilter fnd userID) =
     (if userID = 0 then Find_Filters fnd
      else Find_Filters fnd
           @ [''creator_id == '' @ format_d (sint userID)
                @ '' || visibility in [\"PUBLIC\", \"PROTECTED\"]''])"
    by (simp add: applyVisibilityFilter_def policy_clause_text)
  have c: "map_option sint (Atoi (format_d (sint userID))) = Some (sint userID)"
    by (rule Atoi_caller)
  have d: "\<forall>f. list_find userID req = Inr f \<longrightarrow>
         Find_VisibilityList f = (if userID = 0 then [''PUBLIC''] else [])
         \<and> Find_Filters f =
             (if userID = 0 then []
              else [''creator_id == '' @ format_d (sint userID)
                      @ '' || visibility in [\"PUBLIC\", \"PROTECTED\"]''])
             @ (if GetString req ''filter'' '''' = '''' then []
                else [GetString req ''filter'' ''''])
         \<and> (\<forall>memos. ListMemos store st f = Inr memos \<longrightarrow>
               handleListMemos store st userID req =
                 ToolResultText
                   (JObject
                      [(''memos'',
                        JArray (map (\<lambda>m. marshal_memoJSON (storeMemoToJSON m))
                                  (take (nat (sint (list_pageSize req))) memos))),
                       (''has_more'', JBool (nat (sint (list_pageSize req)) < length memos))]))"
  proof (intro allI impI conjI)
    fix f assume f: "list_find userID req = Inr f"
    show "Find_VisibilityList f = (if userID = 0 then [''PUBLIC''] else [])"
      using list_find_clauses [OF f] by (simp add: Public_def)
    show "Find_Filters f =
             (if userID = 0 then []
              else [''creator_id == '' @ format_d (sint userID)
                      @ '' || visibility in [\"PUBLIC\", \"PROTECTED\"]''])
             @ (if GetString req ''filter'' '''' = '''' then []
                else [GetString req ''filter'' ''''])"
      using list_find_clauses [OF f] by (simp add: policy_clause_text caller_filter_def)
    fix memos assume "ListMemos store st f = Inr memos"
    then show "handleListMemos store st userID req =
                 ToolResultText
                   (JObject
                      [(''memos'',
                        JArray (map (\<lambda>m. marshal_memoJSON (storeMemoToJSON m))
                                  (take (nat (sint (list_pageSize req))) memos))),
                       (''has_more'', JBool (nat (sint (list_pageSize req)) < length memos))])"
      using f by (rule handleListMemos_page [rotated])
  qed
  have e: "Find_VisibilityList (search_find quote userID query) =
        (if userID = 0 then [''PUBLIC''] else [])"
    by (simp add: search_find_def applyVisibilityFilter_def FindMemo0_def Public_def)
  have g: "Find_Filters (search_find quote userID query) =
        [''content.contains('' @ quote query @ '')'']
        @ (if userID = 0 then []
           else [''creator_id == '' @ format_d (sint userID)
                   @ '' || visibility in [\"PUBLIC\", \"PROTECTED\"]''])"
    by (simp add: search_find_def applyVisibilityFilter_def FindMemo0_def policy_clause_text)
  have h: "GetString req ''query'' '''' \<noteq> '''' \<longrightarrow>
         handleSearchMemos store quote st userID req =
           (case ListMemos store st (search_find quote userID (GetString req ''query'' '''')) of
              Inl err \<Rightarrow> ToolResultError (StoreFailure ''failed to search memos'' err)
            | Inr memos \<Rightarrow>
                ToolResultText
                  (JArray (map (\<lambda>m. marshal_memoJSON (storeMemoToJSON m)) memos)))"
    using handleSearchMemos_query [of req store quote st userID] by blast
  have i: "Find_VisibilityList (listTags_find userID) = (if userID = 0 then [''PUBLIC''] else [])"
    by (simp add: listTags_find_def applyVisibilityFilter_def FindMemo0_def Public_def)
  have j: "Find_Filters (listTags_find userID) =
        (if userID = 0 then []
         else [''creator_id == '' @ format_d (sint userID)
                 @ '' || visibility in [\"PUBLIC\", \"PROTECTED\"]''])"
    by (simp add: listTags_find_def applyVisibilityFilter_def FindMemo0_def policy_clause_text)
  have k: "handleListTags store st userID =
        (case ListMemos store st (listTags_find userID) of
           Inl err \<Rightarrow> ToolResultError (StoreFailure ''failed to list memos'' err)
         | Inr memos \<Rightarrow> ToolResultText (JArray (map marshal_tagEntry (listTags_entries memos))))"
    by (simp add: handleListTags_def)
  from a b c d e g h i j k show ?thesis
    by (intro conjI) assumption+
qed

text \<open>
  On the in-memory store. The list query of caller 7 with the filter \<open>pinned\<close> holds the
  two clauses, that of the anonymous caller the visibility list and the caller's filter;
  the clause of caller 12 names 12. A search for \<open>go\<close> by the anonymous caller, and one
  by user 2 with the evaluator that reads user 2's clause, return user 2's public memo
  and not user 1's private one.
\<close>

lemma sample_search_rows_anonymous:
  "ListMemos (mem_store any_filter) sample_state (search_find sample_quote 0 ''go'')
     = Inr [memo_b]"
  by (simp add: mem_store_def mem_ListMemos_def mem_matches_def any_filter_def sample_state_def
      search_find_def applyVisibilityFilter_def FindMemo0_def memo_a_def memo_b_def Let_def
      Public_def Private_def Normal_def)

lemma sample_search_rows_2:
  "ListMemos (mem_store (cel_for 2)) sample_state (search_find sample_quote 2 ''go'')
     = Inr [memo_b]"
  by (simp add: mem_store_def mem_ListMemos_def mem_matches_def cel_for_def sample_state_def
      search_find_def applyVisibilityFilter_def FindMemo0_def memo_a_def memo_b_def Let_def
      Public_def Private_def Protected_def Normal_def policy_clause_def format_d_def
      format_nat.simps digit_char_def sample_quote_def)

theorem visibility_filter_clauses_witness:
  "(\<exists>f. list_find 7 [''filter'' \<mapsto> AString ''pinned''] = Inr f
        \<and> Find_VisibilityList f = []
        \<and> Find_Filters f =
            [''creator_id == 7 || visibility in [\"PUBLIC\", \"PROTECTED\"]'', ''pinned''])
   \<and> (\<exists>f. list_find 0 [''filter'' \<mapsto> AString ''pinned''] = Inr f
        \<and> Find_VisibilityList f = [''PUBLIC'']
        \<and> Find_Filters f = [''pinned''])
   \<and> Find_Filters (listTags_find 12) =
        [''creator_id == 12 || visibility in [\"PUBLIC\", \"PROTECTED\"]'']
   \<and> handleSearchMemos (mem_store any_filter) sample_quote sample_state 0
        [''query'' \<mapsto> AString ''go'']
      = ToolResultText (JArray [marshal_memoJSON (storeMemoToJSON memo_b)])
   \<and> handleSearchMemos (mem_store (cel_for 2)) sample_quote sample_state 2
        [''query'' \<mapsto> AString ''go'']
      = ToolResultText (JArray [marshal_memoJSON (storeMemoToJSON memo_b)])"
proof -
  let ?req = "[''filter'' \<mapsto> AString ''pinned'']"
  let ?q = "[''query'' \<mapsto> AString ''go'']"
  have fl: "GetString ?req ''filter'' '''' = ''pinned''"
    by (simp add: GetString_def)
  have q: "GetString ?q ''query'' '''' = ''go''"
    by (simp add: GetString_def)
  have n7: "format_d 7 = ''7''"
    by (simp add: format_d_def format_nat.simps digit_char_def)
  have n12: "format_d 12 = ''12''"
    by (simp add: format_d_def format_nat.simps digit_char_def)
  obtain f where f: "list_find 7 ?req = Inr f"
    by (simp add: list_find_def GetString_def parseRowStatus_def Normal_def Let_def)
  obtain g where g: "list_find 0 ?req = Inr g"
    by (simp add: list_find_def GetString_def parseRowStatus_def Normal_def Let_def)
  note t7 = visibility_filter_clauses [of _ 7 ?req "mem_store any_filter" sample_state sample_quote "''go''"]
  note t0 = visibility_filter_clauses [of _ 0 ?req "mem_store any_filter" sample_state sample_quote "''go''"]
  note t12 = visibility_filter_clauses [of _ 12 ?req "mem_store any_filter" sample_state sample_quote "''go''"]
  note s0 = visibility_filter_clauses [of _ 0 ?q "mem_store any_filter" sample_state sample_quote "''go''"]
  note s2 = visibility_filter_clauses [of _ 2 ?q "mem_store (cel_for 2)" sample_state sample_quote "''go''"]
  have "Find_VisibilityList f = (if (7 :: int32) = 0 then [''PUBLIC''] else [])
        \<and> Find_Filters f =
             (if (7 :: int32) = 0 then []
              else [''creator_id == '' @ format_d (sint (7 :: int32))
                      @ '' || visibility in [\"PUBLIC\", \"PROTECTED\"]''])
             @ (if GetString ?req ''filter'' '''' = '''' then []
                else [GetString ?req ''filter'' ''''])"
    using t7 f by blast
  then have w7: "Find_VisibilityList f = []
        \<and> Find_Filters f =
            [''creator_id == 7 || visibility in [\"PUBLIC\", \"PROTECTED\"]'', ''pinned'']"
    by (simp add: fl n7)
  have "Find_VisibilityList g = (if (0 :: int32) = 0 then [''PUBLIC''] else [])
        \<and> Find_Filters g =
             (if (0 :: int32) = 0 then []
              else [''creator_id == '' @ format_d (sint (0 :: int32))
                      @ '' || visibility in [\"PUBLIC\", \"PROTECTED\"]''])
             @ (if GetString ?req ''filter'' '''' = '''' then []
                else [GetString ?req ''filter'' ''''])"
    using t0 g by blast
  then have w0: "Find_VisibilityList g = [''PUBLIC''] \<and> Find_Filters g = [''pinned'']"
    by (simp add: fl)
  have "Find_Filters (listTags_find 12) =
        (if (12 :: int32) = 0 then []
         else [''creator_id == '' @ format_d (sint (12 :: int32))
                 @ '' || visibility in [\"PUBLIC\", \"PROTECTED\"]''])"
    using t12 by blast
  then have w12: "Find_Filters (listTags_find 12) =
        [''creator_id == 12 || visibility in [\"PUBLIC\", \"PROTECTED\"]'']"
    by (simp add: n12)
  have "GetString ?q ''query'' '''' \<noteq> '''' \<longrightarrow>
         handleSearchMemos (mem_store any_filter) sample_quote sample_state 0 ?q =
           (case ListMemos (mem_store any_filter) sample_state
                   (search_find sample_quote 0 (GetString ?q ''query'' '''')) of
              Inl err \<Rightarrow> ToolResultError (StoreFailure ''failed to search memos'' err)
            | Inr memos \<Rightarrow>
                ToolResultText
                  (JArray (map (\<lambda>m. marshal_memoJSON (storeMemoToJSON m)) memos)))"
    using s0 by blast
  then have ws0: "handleSearchMemos (mem_store any_filter) sample_quote sample_state 0 ?q
      = ToolResultText (JArray [marshal_memoJSON (storeMemoToJSON memo_b)])"
    by (simp add: q sample_search_rows_anonymous)
  have "GetString ?q ''query'' '''' \<noteq> '''' \<longrightarrow>
         handleSearchMemos (mem_store (cel_for 2)) sample_quote sample_state 2 ?q =
           (case ListMemos (mem_store (cel_for 2)) sample_state
                   (search_find sample_quote 2 (GetString ?q ''query'' '''')) of
              Inl err \<Rightarrow> ToolResultError (StoreFailure ''failed to search memos'' err)
            | Inr memos \<Rightarrow>
                ToolResultText
                  (JArray (map (\<lambda>m. marshal_memoJSON (storeMemoToJSON m)) memos)))"
    using s2 by blast
  then have ws2: "handleSearchMemos (mem_store (cel_for 2)) sample_quote sample_state 2 ?q
      = ToolResultText (JArray [marshal_memoJSON (storeMemoToJSON memo_b)])"
    by (simp add: q sample_search_rows_2)
  from f g w7 w0 w12 ws0 ws2 show ?thesis
    by blast
qed

text \<open>
  On the in-memory store, with any evaluator \<open>cel\<close> of filter strings: every row of
  a list call is public when the caller is anonymous, and meets the policy clause when
  the caller is authenticated; and it meets the caller's filter as well.
\<close>

lemma mem_list_rows_policy:
  assumes "list_find userID req = Inr f" and "ListMemos (mem_store cel) st f = Inr rows"
    and "r \<in> set rows"
  shows "(userID = 0 \<longrightarrow> Visibility r = Public)
         \<and> (userID \<noteq> 0 \<longrightarrow> cel (policy_clause userID) r)
         \<and> list_all (\<lambda>c. cel c r) (caller_filter req)"
proof -
  have x: "Find_ExcludeContent f = False"
    using assms(1)
    by (auto simp: list_find_def applyVisibilityFilter_def FindMemo0_def Let_def
        split: if_splits sum.splits)
  have "r \<in> set (filter (mem_matches cel f) (mem_memos st))"
    using assms(2,3) x
    by (auto simp: mem_store_def mem_ListMemos_def Let_def split: option.splits
        dest!: in_set_takeD in_set_dropD)
  then have m: "mem_matches cel f r" by simp
  show ?thesis
    using m list_find_clauses [OF assms(1)]
    by (auto simp: mem_matches_def)
qed

subsection \<open>Ownership\<close>

text \<open>
  C3, as stated, fails for the anonymous caller. Its identity 0 is not the creator of
  user 1's memo \<open>memos/a1\<close>, and its update and its delete of that memo fail with the
  error "unauthenticated", which is not the error "permission denied" of the ownership
  check: the handlers turn the anonymous caller away before they look at the memo.
\<close>

theorem owner_only_anonymous_counterexample:
  "GetMemo (mem_store any_filter) sample_state (FindMemo0\<lparr>Find_UID := Some ''a1''\<rparr>)
     = Inr (Some memo_a)
   \<and> CreatorID memo_a \<noteq> 0
   \<and> handleUpdateMemo (mem_store any_filter) sample_state 0
        [''name'' \<mapsto> AString ''memos/a1'', ''content'' \<mapsto> AString ''mine now'']
      = (ToolResultError Unauthenticated, sample_state)
   \<and> handleDeleteMemo (mem_store any_filter) sample_state 0
        [''name'' \<mapsto> AString ''memos/a1'']
      = (ToolResultError Unauthenticated, sample_state)
   \<and> ToolResultError Unauthenticated \<noteq> ToolResultError PermissionDenied"
proof -
  have c: "CreatorID memo_a \<noteq> 0"
    by (simp add: memo_a_def)
  have u: "handleUpdateMemo (mem_store any_filter) sample_state 0
        [''name'' \<mapsto> AString ''memos/a1'', ''content'' \<mapsto> AString ''mine now'']
      = (ToolResultError Unauthenticated, sample_state)"
    by (simp add: handleUpdateMemo_def extractUserID_def)
  have d: "handleDeleteMemo (mem_store any_filter) sample_state 0
        [''name'' \<mapsto> AString ''memos/a1'']
      = (ToolResultError Unauthenticated, sample_state)"
    by (simp add: handleDeleteMemo_def extractUserID_def)
  from sample_get_a1 c u d show ?thesis
    by simp
qed

text \<open>
  C3 (amended). Whenever the memo that an update or delete call names exists and its
  creator is not the caller, the call fails and the store's state is the one before the
  call: the handler asks the store for no write, so no field of the memo is changed. For
  every authenticated caller the failure is "permission denied", whatever the memo's
  visibility and whatever else the call supplies; for the anonymous caller it is
  "unauthenticated". No identity other than the creator's passes: the statement holds
  for every caller, every memo and every store.
\<close>

theorem owner_only:
  assumes "parseMemoUID (GetString req ''name'' '''') = Inr uid"
    and "GetMemo store st (FindMemo0\<lparr>Find_UID := Some uid\<rparr>) = Inr (Some memo)"
    and "CreatorID memo \<noteq> ident"
  shows "handleUpdateMemo store st ident req =
           (ToolResultError (if ident = 0 then Unauthenticated else PermissionDenied), st)
         \<and> handleDeleteMemo store st ident req =
           (ToolResultError (if ident = 0 then Unauthenticated else PermissionDenied), st)"
  using assms
  by (simp add: handleUpdateMemo_def handleDeleteMemo_def extractUserID_def)

text \<open>
  On the in-memory store: user 2 and the anonymous caller try to take over and to delete
  user 1's memo.
\<close>

theorem owner_only_witness:
  "handleUpdateMemo (mem_store any_filter) sample_state 2
      [''name'' \<mapsto> AString ''memos/a1'', ''content'' \<mapsto> AString ''mine now'',
       ''visibility'' \<mapsto> AString ''PUBLIC''] = (ToolResultError PermissionDenied, sample_state)
   \<and> handleDeleteMemo (mem_store any_filter) sample_state 2
      [''name'' \<mapsto> AString ''memos/a1'', ''content'' \<mapsto> AString ''mine now'',
       ''visibility'' \<mapsto> AString ''PUBLIC''] = (ToolResultError PermissionDenied, sample_state)
   \<and> handleUpdateMemo (mem_store any_filter) sample_state 0
      [''name'' \<mapsto> AString ''memos/a1'', ''content'' \<mapsto> AString ''mine now'',
       ''visibility'' \<mapsto> AString ''PUBLIC''] = (ToolResultError Unauthenticated, sample_state)
   \<and> handleDeleteMemo (mem_store any_filter) sample_state 0
      [''name'' \<mapsto> AString ''memos/a1'', ''content'' \<mapsto> AString ''mine now'',
       ''visibility'' \<mapsto> AString ''PUBLIC''] = (ToolResultError Unauthenticated, sample_state)"
proof -
  let ?req = "[''name'' \<mapsto> AString ''memos/a1'', ''content'' \<mapsto> AString ''mine now'',
       ''visibility'' \<mapsto> AString ''PUBLIC'']"
  have p: "parseMemoUID (GetString ?req ''name'' '''') = Inr ''a1''"
    by (rule parse_name_a1) simp
  have c: "CreatorID memo_a \<noteq> 2"
    by (simp add: memo_a_def)
  have c0: "CreatorID memo_a \<noteq> 0"
    by (simp add: memo_a_def)
  have two: "handleUpdateMemo (mem_store any_filter) sample_state 2 ?req
               = (ToolResultError PermissionDenied, sample_state)
             \<and> handleDeleteMemo (mem_store any_filter) sample_state 2 ?req
               = (ToolResultError PermissionDenied, sample_state)"
    using owner_only [OF p sample_get_a1 c] by simp
  have zero: "handleUpdateMemo (mem_store any_filter) sample_state 0 ?req
               = (ToolResultError Unauthenticated, sample_state)
             \<and> handleDeleteMemo (mem_store any_filter) sample_state 0 ?req
               = (ToolResultError Unauthenticated, sample_state)"
    using owner_only [OF p sample_get_a1 c0] by simp
  from two zero show ?thesis
    by simp
qed

subsection \<open>Comment creation\<close>

text \<open>
  C4. A create-comment call that succeeds has an authenticated caller, a well-formed
  name, non-empty content and a parent that the store found and the caller may read.
  It asked the store to create one memo, the draft \<open>d\<close>: its visibility is the
  visibility of the parent as fetched (no argument of the call enters it), its creator
  is the caller, its parent reference is the parent's uid. On the state after that, it
  asked the store once for the relation of type comment from the created memo to the
  parent, and the state after that is the final one; the answer is the created memo.
  The call fails, leaving the state as it was, when the content is empty, when the
  parent is not found, and when the caller may not read the parent.
\<close>

theorem create_comment:
  "(handleCreateMemoComment store new_uid st ident req = (ToolResultText out, st') \<longrightarrow>
      (\<exists>uid parent d comment st1 rel.
           ident \<noteq> 0
           \<and> parseMemoUID (GetString req ''name'' '''') = Inr uid
           \<and> GetString req ''content'' '''' \<noteq> ''''
           \<and> GetMemo store st (FindMemo0\<lparr>Find_UID := Some uid\<rparr>) = Inr (Some parent)
           \<and> checkMemoAccess parent ident = None
           \<and> d = comment_draft new_uid ident (GetString req ''content'' '''') parent
           \<and> Visibility d = Visibility parent
           \<and> CreatorID d = ident
           \<and> ParentUID d = Some (UID parent)
           \<and> Content d = GetString req ''content'' ''''
           \<and> CreateMemo store st d = (Inr comment, st1)
           \<and> UpsertMemoRelation store st1
                \<lparr>MemoID = ID comment, RelatedMemoID = ID parent, Type = MemoRelationComment\<rparr>
              = (Inr rel, st')
           \<and> out = marshal_memoJSON (storeMemoToJSON comment)))
   \<and> (GetString req ''content'' '''' = '''' \<longrightarrow>
        (\<exists>e. handleCreateMemoComment store new_uid st ident req = (ToolResultError e, st)))
   \<and> (\<forall>uid. parseMemoUID (GetString req ''name'' '''') = Inr uid
          \<and> GetMemo store st (FindMemo0\<lparr>Find_UID := Some uid\<rparr>) = Inr None \<longrightarrow>
        (\<exists>e. handleCreateMemoComment store new_uid st ident req = (ToolResultError e, st)))
   \<and> (\<forall>uid parent e. parseMemoUID (GetString req ''name'' '''') = Inr uid
          \<and> GetMemo store st (FindMemo0\<lparr>Find_UID := Some uid\<rparr>) = Inr (Some parent)
          \<and> checkMemoAccess parent ident = Some e \<longrightarrow>
        (\<exists>e. handleCreateMemoComment store new_uid st ident req = (ToolResultError e, st)))"
proof (intro conjI impI allI)
  assume "handleCreateMemoComment store new_uid st ident req = (ToolResultText out, st')"
  then show "\<exists>uid parent d comment st1 rel.
           ident \<noteq> 0
           \<and> parseMemoUID (GetString req ''name'' '''') = Inr uid
           \<and> GetString req ''content'' '''' \<noteq> ''''
           \<and> GetMemo store st (FindMemo0\<lparr>Find_UID := Some uid\<rparr>) = Inr (Some parent)
           \<and> checkMemoAccess parent ident = None
           \<and> d = comment_draft new_uid ident (GetString req ''content'' '''') parent
           \<and> Visibility d = Visibility parent
           \<and> CreatorID d = ident
           \<and> ParentUID d = Some (UID parent)
           \<and> Content d = GetString req ''content'' ''''
           \<and> CreateMemo store st d = (Inr comment, st1)
           \<and> UpsertMemoRelation store st1
                \<lparr>MemoID = ID comment, RelatedMemoID = ID parent, Type = MemoRelationComment\<rparr>
              = (Inr rel, st')
           \<and> out = marshal_memoJSON (storeMemoToJSON comment)"
    by (auto simp: handleCreateMemoComment_def extractUserID_def Let_def comment_draft_def
        split: sum.splits option.splits if_splits prod.splits)
next
  assume "GetString req ''content'' '''' = ''''"
  then show "\<exists>e. handleCreateMemoComment store new_uid st ident req = (ToolResultError e, st)"
    by (auto simp: handleCreateMemoComment_def extractUserID_def Let_def split: sum.splits)
next
  fix uid
  assume "parseMemoUID (GetString req ''name'' '''') = Inr uid
          \<and> GetMemo store st (FindMemo0\<lparr>Find_UID := Some uid\<rparr>) = Inr None"
  then show "\<exists>e. handleCreateMemoComment store new_uid st ident req = (ToolResultError e, st)"
    by (auto simp: handleCreateMemoComment_def extractUserID_def Let_def split: sum.splits)
next
  fix uid parent e
  assume "parseMemoUID (GetString req ''name'' '''') = Inr uid
          \<and> GetMemo store st (FindMemo0\<lparr>Find_UID := Some uid\<rparr>) = Inr (Some parent)
          \<and> checkMemoAccess parent ident = Some e"
  then show "\<exists>e. handleCreateMemoComment store new_uid st ident req = (ToolResultError e, st)"
    by (auto simp: handleCreateMemoComment_def extractUserID_def Let_def split: sum.splits)
qed

lemma extractTags_nice: "extractTags ''nice #idea'' = [''idea'']"
  by (simp add: extractTags_def match_at_def is_space_def is_letter_def is_tag_char_def)

lemma sample_create_comment:
  "handleCreateMemoComment (mem_store any_filter) ''c3'' sample_state 1
      [''name'' \<mapsto> AString ''memos/b2'', ''content'' \<mapsto> AString ''nice #idea'']
   = (ToolResultText (marshal_memoJSON (storeMemoToJSON comment_c3)),
      sample_state\<lparr>mem_memos := [memo_a, memo_b, comment_c3],
                    mem_relations :=
                      [\<lparr>MemoID = 3, RelatedMemoID = 2, Type = MemoRelationComment\<rparr>],
                    mem_next_id := 4\<rparr>)"
proof -
  let ?req = "[''name'' \<mapsto> AString ''memos/b2'', ''content'' \<mapsto> AString ''nice #idea'']"
  have n: "GetString ?req ''name'' '''' = ''memos/b2''"
    and c: "GetString ?req ''content'' '''' = ''nice #idea''"
    by (simp_all add: GetString_def)
  have p: "parseMemoUID ''memos/b2'' = Inr ''b2''"
    by (simp add: parseMemoUID_def CutPrefix_def HasPrefix_def)
  have a: "checkMemoAccess memo_b 1 = None"
    by (simp add: checkMemoAccess_def memo_b_def Public_def Protected_def Private_def)
  have d: "comment_draft ''c3'' 1 ''nice #idea'' memo_b =
             \<lparr>ID = 0, UID = ''c3'', RowStatus = '''', CreatorID = 1, CreatedTs = 0,
              UpdatedTs = 0, Content = ''nice #idea'', Visibility = Public, Pinned = False,
              Payload = Some \<lparr>Tags = [''idea''], Property = None\<rparr>, ParentUID = Some ''b2''\<rparr>"
    by (simp add: comment_draft_def buildPayload_def extractTags_nice memo_b_def)
  have "handleCreateMemoComment (mem_store any_filter) ''c3'' sample_state 1 ?req =
          (case CreateMemo (mem_store any_filter) sample_state
                  (comment_draft ''c3'' 1 ''nice #idea'' memo_b) of
             (Inl err, st') \<Rightarrow>
               (ToolResultError (StoreFailure ''failed to create comment'' err), st')
           | (Inr comment, st') \<Rightarrow>
               (case UpsertMemoRelation (mem_store any_filter) st'
                       \<lparr>MemoID = ID comment, RelatedMemoID = ID memo_b,
                        Type = MemoRelationComment\<rparr> of
                  (Inl err, st'') \<Rightarrow>
                    (ToolResultError (StoreFailure ''failed to link comment'' err), st'')
                | (Inr _, st'') \<Rightarrow>
                    (ToolResultText (marshal_memoJSON (storeMemoToJSON comment)), st'')))"
    by (simp add: handleCreateMemoComment_def extractUserID_def n c p sample_get_b2 a)
  also have "\<dots> = (ToolResultText (marshal_memoJSON (storeMemoToJSON comment_c3)),
      sample_state\<lparr>mem_memos := [memo_a, memo_b, comment_c3],
                    mem_relations :=
                      [\<lparr>MemoID = 3, RelatedMemoID = 2, Type = MemoRelationComment\<rparr>],
                    mem_next_id := 4\<rparr>)"
    unfolding d
    by (simp add: Let_def mem_store_def mem_CreateMemo_def mem_UpsertMemoRelation_def sample_state_def
        comment_c3_def memo_b_def)
  finally show ?thesis .
qed

theorem create_comment_witness:
  "handleCreateMemoComment (mem_store any_filter) ''c3'' sample_state 1
      [''name'' \<mapsto> AString ''memos/b2'', ''content'' \<mapsto> AString ''nice #idea'']
   = (ToolResultText (marshal_memoJSON (storeMemoToJSON comment_c3)),
      sample_state\<lparr>mem_memos := [memo_a, memo_b, comment_c3],
                    mem_relations :=
                      [\<lparr>MemoID = 3, RelatedMemoID = 2, Type = MemoRelationComment\<rparr>],
                    mem_next_id := 4\<rparr>)
   \<and> (\<exists>parent d comment st1 rel.
         GetMemo (mem_store any_filter) sample_state (FindMemo0\<lparr>Find_UID := Some ''b2''\<rparr>)
           = Inr (Some parent)
         \<and> Visibility d = Visibility parent \<and> CreatorID d = 1 \<and> ParentUID d = Some (UID parent)
         \<and> CreateMemo (mem_store any_filter) sample_state d = (Inr comment, st1)
         \<and> UpsertMemoRelation (mem_store any_filter) st1
              \<lparr>MemoID = ID comment, RelatedMemoID = ID parent, Type = MemoRelationComment\<rparr>
            = (Inr rel,
               sample_state\<lparr>mem_memos := [memo_a, memo_b, comment_c3],
                             mem_relations :=
                               [\<lparr>MemoID = 3, RelatedMemoID = 2, Type = MemoRelationComment\<rparr>],
                             mem_next_id := 4\<rparr>))
   \<and> (\<exists>e. handleCreateMemoComment (mem_store any_filter) ''c3'' sample_state 2
              [''name'' \<mapsto> AString ''memos/a1'', ''content'' \<mapsto> AString ''nice #idea'']
            = (ToolResultError e, sample_state))
   \<and> (\<exists>e. handleCreateMemoComment (mem_store any_filter) ''c3'' sample_state 1
              [''name'' \<mapsto> AString ''memos/b2'', ''content'' \<mapsto> AString '''']
            = (ToolResultError e, sample_state))
   \<and> (\<exists>e. handleCreateMemoComment (mem_store any_filter) ''c3'' sample_state 1
              [''name'' \<mapsto> AString ''memos/zz'', ''content'' \<mapsto> AString ''nice #idea'']
            = (ToolResultError e, sample_state))"
proof -
  let ?missing = "[''name'' \<mapsto> AString ''memos/zz'', ''content'' \<mapsto> AString ''nice #idea'']"
  let ?ok = "[''name'' \<mapsto> AString ''memos/b2'', ''content'' \<mapsto> AString ''nice #idea'']"
  let ?denied = "[''name'' \<mapsto> AString ''memos/a1'', ''content'' \<mapsto> AString ''nice #idea'']"
  let ?empty = "[''name'' \<mapsto> AString ''memos/b2'', ''content'' \<mapsto> AString '''']"
  let ?st' = "sample_state\<lparr>mem_memos := [memo_a, memo_b, comment_c3],
                    mem_relations :=
                      [\<lparr>MemoID = 3, RelatedMemoID = 2, Type = MemoRelationComment\<rparr>],
                    mem_next_id := 4\<rparr>"
  note t = create_comment [of "mem_store any_filter" "''c3''" sample_state 1 ?ok
      "marshal_memoJSON (storeMemoToJSON comment_c3)" ?st']
  have p: "parseMemoUID (GetString ?ok ''name'' '''') = Inr ''b2''"
    by (rule parse_name_b2) simp
  from t sample_create_comment obtain uid parent d comment st1 rel where
      u: "parseMemoUID (GetString ?ok ''name'' '''') = Inr uid"
    and r: "GetMemo (mem_store any_filter) sample_state (FindMemo0\<lparr>Find_UID := Some uid\<rparr>)
              = Inr (Some parent)"
      "Visibility d = Visibility parent" "CreatorID d = 1" "ParentUID d = Some (UID parent)"
      "CreateMemo (mem_store any_filter) sample_state d = (Inr comment, st1)"
      "UpsertMemoRelation (mem_store any_filter) st1
         \<lparr>MemoID = ID comment, RelatedMemoID = ID parent, Type = MemoRelationComment\<rparr>
       = (Inr rel, ?st')"
    by blast
  have "uid = ''b2''" using u p by simp
  with r have second: "\<exists>parent d comment st1 rel.
         GetMemo (mem_store any_filter) sample_state (FindMemo0\<lparr>Find_UID := Some ''b2''\<rparr>)
           = Inr (Some parent)
         \<and> Visibility d = Visibility parent \<and> CreatorID d = 1 \<and> ParentUID d = Some (UID parent)
         \<and> CreateMemo (mem_store any_filter) sample_state d = (Inr comment, st1)
         \<and> UpsertMemoRelation (mem_store any_filter) st1
              \<lparr>MemoID = ID comment, RelatedMemoID = ID parent, Type = MemoRelationComment\<rparr>
            = (Inr rel, ?st')"
    by blast
  have pa: "parseMemoUID (GetString ?denied ''name'' '''') = Inr ''a1''"
    by (rule parse_name_a1) simp
  have den: "checkMemoAccess memo_a 2 = Some PermissionDenied"
    by (simp add: checkMemoAccess_def memo_a_def Public_def Protected_def Private_def)
  have third: "\<exists>e. handleCreateMemoComment (mem_store any_filter) ''c3'' sample_state 2 ?denied
            = (ToolResultError e, sample_state)"
    using create_comment [of "mem_store any_filter" "''c3''" sample_state 2 ?denied]
      pa sample_get_a1 [of any_filter] den by blast
  have fourth: "\<exists>e. handleCreateMemoComment (mem_store any_filter) ''c3'' sample_state 1 ?empty
            = (ToolResultError e, sample_state)"
    using create_comment [of "mem_store any_filter" "''c3''" sample_state 1 ?empty]
    by (simp add: GetString_def)
  have pz: "parseMemoUID (GetString ?missing ''name'' '''') = Inr ''zz''"
    by (rule parse_name_zz) simp
  have fifth: "\<exists>e. handleCreateMemoComment (mem_store any_filter) ''c3'' sample_state 1 ?missing
            = (ToolResultError e, sample_state)"
    using create_comment [of "mem_store any_filter" "''c3''" sample_state 1 ?missing]
      pz sample_get_none [of any_filter] by blast
  show ?thesis
    using sample_create_comment second third fourth fifth by blast
qed


subsection \<open>Pagination\<close>

lemma sint_pageSize_Suc: "sint (list_pageSize req + 1) = sint (list_pageSize req) + 1"
proof -
  have r: "1 \<le> sint (list_pageSize req)" "sint (list_pageSize req) \<le> 100"
    using list_pageSize_range by auto
  have "sint (list_pageSize req + 1) = signed_take_bit 63 (sint (list_pageSize req) + 1)"
    by (simp add: sint_word_add)
  also have "\<dots> = sint (list_pageSize req) + 1"
    using r by (intro signed_take_bit_int_eq_self) simp_all
  finally show ?thesis .
qed

lemma sint_offset:
  assumes "sint (list_page req) * sint (list_pageSize req) < 2 ^ 63"
  shows "sint (list_page req * list_pageSize req) = sint (list_page req) * sint (list_pageSize req)"
proof -
  have nn: "0 \<le> sint (list_page req) * sint (list_pageSize req)"
    using list_page_nonneg [of req] list_pageSize_range [of req] by simp
  have "sint (list_page req * list_pageSize req)
          = signed_take_bit 63 (sint (list_page req) * sint (list_pageSize req))"
    by (simp add: sint_word_mult)
  also have "\<dots> = sint (list_page req) * sint (list_pageSize req)"
    using assms nn by (intro signed_take_bit_int_eq_self) simp_all
  finally show ?thesis .
qed

lemma list_find_offset:
  assumes "list_find userID req = Inr f"
    and "sint (list_page req) * sint (list_pageSize req) < 2 ^ 63"
  shows "map_option sint (Find_Offset f) = Some (sint (list_page req) * sint (list_pageSize req))"
  using list_find_window [OF assms(1)] sint_offset [OF assms(2)] by simp

lemma sample_list_find_far:
  "list_find 1 [''page'' \<mapsto> ANumber 4611686018427387904, ''page_size'' \<mapsto> ANumber 3] =
     Inr (FindMemo0\<lparr>Find_ExcludeComments := True, Find_RowStatus := Some Normal,
                     Find_Limit := Some 4, Find_Offset := Some (- 4611686018427387904),
                     Find_Filters := [policy_clause 1]\<rparr>)"
  by (simp add: list_find_def list_pageSize_def list_page_def GetInt_def GetString_def GetBool_def
      parseRowStatus_def Normal_def applyVisibilityFilter_def FindMemo0_def Let_def)

text \<open>
  C5, as stated, fails in two places. For a requested page size that is not positive the
  handler takes the default 20, where clamping to the range would give 1. And the offset
  is computed in Go's 64-bit \<^verbatim>\<open>int\<close>: for page \<open>2^62\<close> and page size 3 the store is
  asked for 4 rows at offset \<open>-2^62\<close>, which is not page times page size.
\<close>

theorem handleListMemos_pagination_counterexample:
  "sint (list_pageSize [''page_size'' \<mapsto> ANumber 0])
     \<noteq> claimed_pageSize [''page_size'' \<mapsto> ANumber 0]
   \<and> sint (list_pageSize [''page_size'' \<mapsto> ANumber 0]) = 20
   \<and> claimed_pageSize [''page_size'' \<mapsto> ANumber 0] = 1
   \<and> sint (list_page [''page'' \<mapsto> ANumber 4611686018427387904, ''page_size'' \<mapsto> ANumber 3])
       = 4611686018427387904
   \<and> sint (list_pageSize [''page'' \<mapsto> ANumber 4611686018427387904, ''page_size'' \<mapsto> ANumber 3])
       = 3
   \<and> map_option (\<lambda>f. map_option sint (Find_Offset f))
        (case list_find 1 [''page'' \<mapsto> ANumber 4611686018427387904,
                           ''page_size'' \<mapsto> ANumber 3] of
           Inl e \<Rightarrow> None | Inr f \<Rightarrow> Some f)
       = Some (Some (- 4611686018427387904))
   \<and> (- 4611686018427387904 :: int) \<noteq> 4611686018427387904 * 3"
proof -
  have a: "sint (list_pageSize [''page_size'' \<mapsto> ANumber 0]) = 20"
    by (simp add: list_pageSize_def GetInt_def)
  have b: "claimed_pageSize [''page_size'' \<mapsto> ANumber 0] = 1"
    by (simp add: claimed_pageSize_def GetInt_def)
  have c: "sint (list_page [''page'' \<mapsto> ANumber 4611686018427387904,
                            ''page_size'' \<mapsto> ANumber 3]) = 4611686018427387904"
    by (simp add: list_page_def GetInt_def)
  have d: "sint (list_pageSize [''page'' \<mapsto> ANumber 4611686018427387904,
                                ''page_size'' \<mapsto> ANumber 3]) = 3"
    by (simp add: list_pageSize_def GetInt_def)
  have e: "map_option (\<lambda>f. map_option sint (Find_Offset f))
        (case list_find 1 [''page'' \<mapsto> ANumber 4611686018427387904,
                           ''page_size'' \<mapsto> ANumber 3] of
           Inl e \<Rightarrow> None | Inr f \<Rightarrow> Some f)
       = Some (Some (- 4611686018427387904))"
    by (simp add: sample_list_find_far)
  from a b c d e show ?thesis
    by simp
qed

text \<open>
  C5 (amended). For every list call: the effective page size is 20 when none is given or
  the given one is not positive, 100 when the given one is above 100, and the given one
  otherwise, so it always lies in the range from 1 to 100; the page index is 0 when none
  is given or the given one is negative, and the given one otherwise. The store is asked
  for page size + 1 rows, and, whenever page index times page size is below \<open>2^63\<close>, at
  the offset page index times page size. When the store answers, \<^verbatim>\<open>has_more\<close> is true
  exactly when it returned more rows than the page size, and the response holds the
  first page-size rows of the answer: all of them when there are no more, exactly page
  size when there are.
\<close>

theorem handleListMemos_pagination:
  "list_pageSize req =
     (let r = GetInt req ''page_size'' 20
      in if sint r \<le> 0 then 20 else if 100 < sint r then 100 else r)
   \<and> (req ''page_size'' = None \<longrightarrow> list_pageSize req = 20)
   \<and> 1 \<le> sint (list_pageSize req) \<and> sint (list_pageSize req) \<le> 100
   \<and> list_page req = (let p = GetInt req ''page'' 0 in if sint p < 0 then 0 else p)
   \<and> (req ''page'' = None \<longrightarrow> list_page req = 0)
   \<and> 0 \<le> sint (list_page req)
   \<and> (\<forall>f. list_find userID req = Inr f \<longrightarrow>
         Find_Limit f = Some (list_pageSize req + 1)
         \<and> sint (list_pageSize req + 1) = sint (list_pageSize req) + 1
         \<and> (sint (list_page req) * sint (list_pageSize req) < 2 ^ 63 \<longrightarrow>
              map_option sint (Find_Offset f)
                = Some (sint (list_page req) * sint (list_pageSize req))))
   \<and> (\<forall>f memos. list_find userID req = Inr f \<and> ListMemos store st f = Inr memos \<longrightarrow>
         handleListMemos store st userID req =
           ToolResultText
             (JObject [(''memos'', JArray (map (\<lambda>m. marshal_memoJSON (storeMemoToJSON m))
                                              (take (nat (sint (list_pageSize req))) memos))),
                       (''has_more'', JBool (nat (sint (list_pageSize req)) < length memos))])
         \<and> length (take (nat (sint (list_pageSize req))) memos)
             = min (length memos) (nat (sint (list_pageSize req))))"
proof -
  have e: "list_pageSize req =
     (let r = GetInt req ''page_size'' 20
      in if sint r \<le> 0 then 20 else if 100 < sint r then 100 else r)"
    by (rule list_pageSize_eq)
  have a: "req ''page_size'' = None \<longrightarrow> list_pageSize req = 20"
    by (simp add: list_pageSize_def GetInt_absent)
  have r: "1 \<le> sint (list_pageSize req)" "sint (list_pageSize req) \<le> 100"
    using list_pageSize_range [of req] by simp_all
  have c: "list_page req = (let p = GetInt req ''page'' 0 in if sint p < 0 then 0 else p)"
    by (simp add: list_page_def)
  have b: "req ''page'' = None \<longrightarrow> list_page req = 0"
    by (simp add: list_page_def GetInt_absent)
  have n: "0 \<le> sint (list_page req)"
    by (rule list_page_nonneg)
  have g: "\<forall>f. list_find userID req = Inr f \<longrightarrow>
         Find_Limit f = Some (list_pageSize req + 1)
         \<and> sint (list_pageSize req + 1) = sint (list_pageSize req) + 1
         \<and> (sint (list_page req) * sint (list_pageSize req) < 2 ^ 63 \<longrightarrow>
              map_option sint (Find_Offset f)
                = Some (sint (list_page req) * sint (list_pageSize req)))"
    using list_find_window [of userID req] sint_pageSize_Suc [of req]
      list_find_offset [of userID req]
    by blast
  have h: "\<forall>f memos. list_find userID req = Inr f \<and> ListMemos store st f = Inr memos \<longrightarrow>
         handleListMemos store st userID req =
           ToolResultText
             (JObject [(''memos'', JArray (map (\<lambda>m. marshal_memoJSON (storeMemoToJSON m))
                                              (take (nat (sint (list_pageSize req))) memos))),
                       (''has_more'', JBool (nat (sint (list_pageSize req)) < length memos))])
         \<and> length (take (nat (sint (list_pageSize req))) memos)
             = min (length memos) (nat (sint (list_pageSize req)))"
    using handleListMemos_page [of userID req _ store st] by simp
  from e a r c b n g h show ?thesis
    by (intro conjI) assumption+
qed

text \<open>
  On the in-memory store, as user 1 with page size 1: the first page holds user 1's memo
  and reports more; the second page, asked at offset 1, holds user 2's public memo and
  reports no more.
\<close>

lemma sample_list_find:
  "list_find 1 [''page_size'' \<mapsto> ANumber 1] =
     Inr (FindMemo0\<lparr>Find_ExcludeComments := True, Find_RowStatus := Some Normal,
                     Find_Limit := Some 2, Find_Offset := Some 0,
                     Find_Filters := [policy_clause 1]\<rparr>)"
  by (simp add: list_find_def list_pageSize_def list_page_def GetInt_def GetString_def GetBool_def
      parseRowStatus_def Normal_def applyVisibilityFilter_def FindMemo0_def Let_def)

lemma sample_list_rows:
  "ListMemos (mem_store (cel_for 1)) sample_state
     (FindMemo0\<lparr>Find_ExcludeComments := True, Find_RowStatus := Some Normal,
                 Find_Limit := Some 2, Find_Offset := Some 0,
                 Find_Filters := [policy_clause 1]\<rparr>) = Inr [memo_a, memo_b]"
  by (simp add: mem_store_def mem_ListMemos_def mem_matches_def cel_for_def sample_state_def
      FindMemo0_def memo_a_def memo_b_def Let_def Public_def)

lemma sample_list_find_second:
  "list_find 1 [''page'' \<mapsto> ANumber 1, ''page_size'' \<mapsto> ANumber 1] =
     Inr (FindMemo0\<lparr>Find_ExcludeComments := True, Find_RowStatus := Some Normal,
                     Find_Limit := Some 2, Find_Offset := Some 1,
                     Find_Filters := [policy_clause 1]\<rparr>)"
  by (simp add: list_find_def list_pageSize_def list_page_def GetInt_def GetString_def GetBool_def
      parseRowStatus_def Normal_def applyVisibilityFilter_def FindMemo0_def Let_def)

lemma sample_list_rows_second:
  "ListMemos (mem_store (cel_for 1)) sample_state
     (FindMemo0\<lparr>Find_ExcludeComments := True, Find_RowStatus := Some Normal,
                 Find_Limit := Some 2, Find_Offset := Some 1,
                 Find_Filters := [policy_clause 1]\<rparr>) = Inr [memo_b]"
  by (simp add: mem_store_def mem_ListMemos_def mem_matches_def cel_for_def sample_state_def
      FindMemo0_def memo_a_def memo_b_def Let_def Public_def)

theorem handleListMemos_pagination_witness:
  "handleListMemos (mem_store (cel_for 1)) sample_state 1 [''page_size'' \<mapsto> ANumber 1] =
     ToolResultText
       (JObject [(''memos'', JArray [marshal_memoJSON (storeMemoToJSON memo_a)]),
                 (''has_more'', JBool True)])
   \<and> handleListMemos (mem_store (cel_for 1)) sample_state 1
       [''page'' \<mapsto> ANumber 1, ''page_size'' \<mapsto> ANumber 1] =
     ToolResultText
       (JObject [(''memos'', JArray [marshal_memoJSON (storeMemoToJSON memo_b)]),
                 (''has_more'', JBool False)])
   \<and> (\<exists>f. list_find 1 [''page'' \<mapsto> ANumber 1, ''page_size'' \<mapsto> ANumber 1] = Inr f
          \<and> Find_Limit f = Some 2
          \<and> map_option sint (Find_Offset f) = Some 1)
   \<and> list_pageSize [''page_size'' \<mapsto> ANumber 1] = 1
   \<and> list_pageSize Map.empty = 20
   \<and> list_page Map.empty = 0"
proof -
  let ?req = "[''page_size'' \<mapsto> ANumber 1]"
  let ?req2 = "[''page'' \<mapsto> ANumber 1, ''page_size'' \<mapsto> ANumber 1]"
  let ?f2 = "FindMemo0\<lparr>Find_ExcludeComments := True, Find_RowStatus := Some Normal,
                       Find_Limit := Some 2, Find_Offset := Some 1,
                       Find_Filters := [policy_clause 1]\<rparr>"
  note t = handleListMemos_pagination [of ?req 1 "mem_store (cel_for 1)" sample_state]
  note t2 = handleListMemos_pagination [of ?req2 1 "mem_store (cel_for 1)" sample_state]
  note t0 = handleListMemos_pagination [of Map.empty 1 "mem_store (cel_for 1)" sample_state]
  have "list_pageSize ?req =
     (let r = GetInt ?req ''page_size'' 20
      in if sint r \<le> 0 then 20 else if 100 < sint r then 100 else r)"
    using t by (rule conjunct1)
  then have ps: "list_pageSize ?req = 1"
    by (simp add: GetInt_def)
  have "list_pageSize ?req2 =
     (let r = GetInt ?req2 ''page_size'' 20
      in if sint r \<le> 0 then 20 else if 100 < sint r then 100 else r)"
    using t2 by (rule conjunct1)
  then have ps2: "list_pageSize ?req2 = 1"
    by (simp add: GetInt_def)
  have "list_page ?req2 = (let p = GetInt ?req2 ''page'' 0 in if sint p < 0 then 0 else p)"
    using t2 by blast
  then have pg2: "list_page ?req2 = 1"
    by (simp add: GetInt_def)
  have "handleListMemos (mem_store (cel_for 1)) sample_state 1 ?req =
           ToolResultText
             (JObject [(''memos'', JArray (map (\<lambda>m. marshal_memoJSON (storeMemoToJSON m))
                                              (take (nat (sint (list_pageSize ?req))) [memo_a, memo_b]))),
                       (''has_more'', JBool (nat (sint (list_pageSize ?req)) < length [memo_a, memo_b]))])"
    using t sample_list_find sample_list_rows by blast
  then have first: "handleListMemos (mem_store (cel_for 1)) sample_state 1 ?req =
     ToolResultText
       (JObject [(''memos'', JArray [marshal_memoJSON (storeMemoToJSON memo_a)]),
                 (''has_more'', JBool True)])"
    by (simp add: ps)
  have "handleListMemos (mem_store (cel_for 1)) sample_state 1 ?req2 =
           ToolResultText
             (JObject [(''memos'', JArray (map (\<lambda>m. marshal_memoJSON (storeMemoToJSON m))
                                              (take (nat (sint (list_pageSize ?req2))) [memo_b]))),
                       (''has_more'', JBool (nat (sint (list_pageSize ?req2)) < length [memo_b]))])"
    using t2 sample_list_find_second sample_list_rows_second by blast
  then have second: "handleListMemos (mem_store (cel_for 1)) sample_state 1 ?req2 =
     ToolResultText
       (JObject [(''memos'', JArray [marshal_memoJSON (storeMemoToJSON memo_b)]),
                 (''has_more'', JBool False)])"
    by (simp add: ps2)
  have "Find_Limit ?f2 = Some (list_pageSize ?req2 + 1)
        \<and> (sint (list_page ?req2) * sint (list_pageSize ?req2) < 2 ^ 63 \<longrightarrow>
              map_option sint (Find_Offset ?f2)
                = Some (sint (list_page ?req2) * sint (list_pageSize ?req2)))"
    using t2 sample_list_find_second by blast
  then have "Find_Limit ?f2 = Some 2 \<and> map_option sint (Find_Offset ?f2) = Some 1"
    by (simp add: ps2 pg2)
  then have window: "\<exists>f. list_find 1 ?req2 = Inr f
          \<and> Find_Limit f = Some 2
          \<and> map_option sint (Find_Offset f) = Some 1"
    using sample_list_find_second by blast
  have d1: "list_pageSize Map.empty = 20"
    using t0 by blast
  have d2: "list_page Map.empty = 0"
    using t0 by blast
  from first second window ps d1 d2 show ?thesis
    by (intro conjI) assumption+
qed

subsection \<open>Partial update\<close>

text \<open>
  What \<^verbatim>\<open>handleUpdateMemo\<close> hands to the store when the arguments are valid: a string
  field is given exactly when its argument is a non-empty string, the pinned flag
  exactly when the key is there, and the payload is the one \<^verbatim>\<open>buildPayload\<close> makes of
  new content, which is nil when that content has no tag.
\<close>

lemma update_fields_partial:
  assumes "update_fields memo req = Inr u"
  shows "Update_ID u = ID memo
    \<and> Update_Content u =
        (if GetString req ''content'' '''' = '''' then None else Some (GetString req ''content'' ''''))
    \<and> Update_Visibility u =
        (if GetString req ''visibility'' '''' = '''' then None
         else Some (GetString req ''visibility'' ''''))
    \<and> Update_RowStatus u =
        (if GetString req ''state'' '''' = '''' then None else Some (GetString req ''state'' ''''))
    \<and> Update_Pinned u =
        (if req ''pinned'' = None then None else Some (GetBool req ''pinned'' False))
    \<and> Update_Payload u =
        (if GetString req ''content'' '''' = '''' then None
         else buildPayload (GetString req ''content'' ''''))"
  using assms
  by (auto simp: update_fields_def Let_def parseVisibility_def parseRowStatus_def
      split: if_splits sum.splits)

text \<open>
  An update that supplies none of the four fields hands the store an update with no
  field, and such an update leaves a memo of the in-memory store as it is.
\<close>

lemma update_fields_nothing:
  assumes "GetString req ''content'' '''' = ''''" and "GetString req ''visibility'' '''' = ''''"
    and "GetString req ''state'' '''' = ''''" and "req ''pinned'' = None"
  shows "update_fields memo req =
           Inr \<lparr>Update_ID = ID memo, Update_RowStatus = None, Update_Content = None,
                Update_Visibility = None, Update_Pinned = None, Update_Payload = None\<rparr>"
  using assms by (simp add: update_fields_def)

lemma apply_update_nothing:
  "apply_update \<lparr>Update_ID = i, Update_RowStatus = None, Update_Content = None,
                  Update_Visibility = None, Update_Pinned = None, Update_Payload = None\<rparr> m = m"
  by (simp add: apply_update_def)

lemma extractTags_plain: "extractTags ''plain text'' = []"
  by (simp add: extractTags_def match_at_def is_space_def is_letter_def is_tag_char_def)

lemma update_fields_plain:
  "update_fields memo_a [''name'' \<mapsto> AString ''memos/a1'', ''content'' \<mapsto> AString ''plain text'']
     = Inr \<lparr>Update_ID = 1, Update_RowStatus = None, Update_Content = Some ''plain text'',
            Update_Visibility = None, Update_Pinned = None, Update_Payload = None\<rparr>"
  by (simp add: update_fields_def GetString_def buildPayload_def extractTags_plain memo_a_def Let_def)

text \<open>
  C7 at the owner's update of memo \<^verbatim>\<open>a1\<close> (content \<^verbatim>\<open>draft #old\<close>, tags \<^verbatim>\<open>[old]\<close>) to
  the content \<^verbatim>\<open>plain text\<close>, which has no tag: the update handed to the store
  carries the new content and no payload, so on the in-memory store the content
  changes, the tag \<^verbatim>\<open>old\<close> stays and the answer lists it, where C7 has the tag set
  replaced by the tags of the new content, that is by none.
\<close>

theorem update_to_tagless_content_keeps_tags:
  "extractTags ''plain text'' = []
   \<and> update_fields memo_a
        [''name'' \<mapsto> AString ''memos/a1'', ''content'' \<mapsto> AString ''plain text'']
      = Inr \<lparr>Update_ID = 1, Update_RowStatus = None, Update_Content = Some ''plain text'',
             Update_Visibility = None, Update_Pinned = None, Update_Payload = None\<rparr>
   \<and> handleUpdateMemo (mem_store any_filter) sample_state 1
        [''name'' \<mapsto> AString ''memos/a1'', ''content'' \<mapsto> AString ''plain text'']
      = (ToolResultText
           (marshal_memoJSON
              (storeMemoToJSON
                 (memo_a\<lparr>Content := ''plain text'',
                         Payload := Some \<lparr>Tags = [''old''], Property = None\<rparr>\<rparr>))),
         sample_state\<lparr>mem_memos :=
           [memo_a\<lparr>Content := ''plain text'',
                   Payload := Some \<lparr>Tags = [''old''], Property = None\<rparr>\<rparr>, memo_b]\<rparr>)
   \<and> json_field
        (marshal_memoJSON
           (storeMemoToJSON
              (memo_a\<lparr>Content := ''plain text'',
                      Payload := Some \<lparr>Tags = [''old''], Property = None\<rparr>\<rparr>)))
        ''tags'' = Some (JArray [JString ''old''])"
proof -
  let ?req = "[''name'' \<mapsto> AString ''memos/a1'', ''content'' \<mapsto> AString ''plain text'']"
  have p: "parseMemoUID (GetString ?req ''name'' '''') = Inr ''a1''"
    by (rule parse_name_a1) simp
  have h: "handleUpdateMemo (mem_store any_filter) sample_state 1 ?req
      = (ToolResultText
           (marshal_memoJSON
              (storeMemoToJSON
                 (memo_a\<lparr>Content := ''plain text'',
                         Payload := Some \<lparr>Tags = [''old''], Property = None\<rparr>\<rparr>))),
         sample_state\<lparr>mem_memos :=
           [memo_a\<lparr>Content := ''plain text'',
                   Payload := Some \<lparr>Tags = [''old''], Property = None\<rparr>\<rparr>, memo_b]\<rparr>)"
    unfolding handleUpdateMemo_def p sample_get_a1
    by (simp add: update_fields_plain [unfolded memo_a_def] extractUserID_def mem_store_def
        mem_UpdateMemo_def mem_GetMemo_def sample_state_def apply_update_def mem_matches_def
        FindMemo0_def memo_a_def memo_b_def)
  have t: "json_field
        (marshal_memoJSON
           (storeMemoToJSON
              (memo_a\<lparr>Content := ''plain text'',
                      Payload := Some \<lparr>Tags = [''old''], Property = None\<rparr>\<rparr>)))
        ''tags'' = Some (JArray [JString ''old''])"
    by (simp add: json_field_tags)
  show ?thesis
    using extractTags_plain update_fields_plain h t by simp
qed

subsection \<open>The memo resource\<close>

lemma formatMemoMarkdown_document:
  "formatMemoMarkdown (storeMemoToJSON m) = memo_document m"
  by (simp add: formatMemoMarkdown_def storeMemoToJSON_def memo_document_def header_fields_def
      Let_def split: option.splits)

lemma TrimPrefix_wellformed:
  "p \<noteq> [] \<Longrightarrow> TrimPrefix (p @ uid) p = uid \<and> TrimPrefix (p @ uid) p \<noteq> p @ uid"
  by (simp add: TrimPrefix_def HasPrefix_def)

text \<open>
  C8. A resource identifier that is not \<^verbatim>\<open>memo://memos/\<close> followed by a non-empty uid
  is rejected with the resolution error "invalid memo URI". For \<^verbatim>\<open>memo://memos/\<close>
  followed by a non-empty uid, the memo of that uid is fetched: a store failure and a
  missing memo are resolution errors, so is a denial by the read-access check, and
  otherwise the answer is one text resource of type \<^verbatim>\<open>text/markdown\<close> whose text is the
  memo's document: the delimiter line, the header fields name, creator, visibility,
  state, pinned, the tag list when there are tags, the creation and update time, the
  parent reference when there is one, the delimiter line, a blank line, the content.
\<close>

theorem read_memo_resource:
  "((\<forall>uid. uid \<noteq> '''' \<longrightarrow> uri \<noteq> ''memo://memos/'' @ uid) \<longrightarrow>
      handleReadMemoResource store st userID uri = Inl (InvalidMemoURI uri))
   \<and> (uid \<noteq> '''' \<longrightarrow>
      handleReadMemoResource store st userID (''memo://memos/'' @ uid) =
        (case GetMemo store st (FindMemo0\<lparr>Find_UID := Some uid\<rparr>) of
           Inl err \<Rightarrow> Inl (FailedToGetMemo err)
         | Inr None \<Rightarrow> Inl (ResourceMemoNotFound uid)
         | Inr (Some memo) \<Rightarrow>
             (case checkMemoAccess memo userID of
                Some e \<Rightarrow> Inl (AccessError e)
              | None \<Rightarrow>
                  Inr [\<lparr>URI = ''memo://memos/'' @ uid, MIMEType = ''text/markdown'',
                        Text = memo_document memo\<rparr>])))"
proof (intro conjI impI)
  assume a: "\<forall>uid. uid \<noteq> '''' \<longrightarrow> uri \<noteq> ''memo://memos/'' @ uid"
  show "handleReadMemoResource store st userID uri = Inl (InvalidMemoURI uri)"
  proof (cases "HasPrefix uri ''memo://memos/''")
    case True
    then have "uri = ''memo://memos/'' @ drop (length ''memo://memos/'') uri"
      by (metis HasPrefix_def append_take_drop_id)
    with a have "drop (length ''memo://memos/'') uri = ''''" by blast
    with True show ?thesis
      by (simp add: handleReadMemoResource_def TrimPrefix_def)
  next
    case False
    then show ?thesis by (simp add: handleReadMemoResource_def TrimPrefix_def)
  qed
next
  assume u: "uid \<noteq> ''''"
  have t: "TrimPrefix (''memo://memos/'' @ uid) ''memo://memos/'' = uid"
    using TrimPrefix_wellformed [of "''memo://memos/''" uid] by simp
  have n: "uid \<noteq> ''memo://memos/'' @ uid"
    by (metis append_self_conv2 list.distinct(1))
  show "handleReadMemoResource store st userID (''memo://memos/'' @ uid) =
        (case GetMemo store st (FindMemo0\<lparr>Find_UID := Some uid\<rparr>) of
           Inl err \<Rightarrow> Inl (FailedToGetMemo err)
         | Inr None \<Rightarrow> Inl (ResourceMemoNotFound uid)
         | Inr (Some memo) \<Rightarrow>
             (case checkMemoAccess memo userID of
                Some e \<Rightarrow> Inl (AccessError e)
              | None \<Rightarrow>
                  Inr [\<lparr>URI = ''memo://memos/'' @ uid, MIMEType = ''text/markdown'',
                        Text = memo_document memo\<rparr>]))"
    unfolding handleReadMemoResource_def Let_def t
    using u n
    by (simp add: formatMemoMarkdown_document split: sum.splits option.splits)
qed

lemma memo_document_b:
  "memo_document memo_b =
     ''---\<newline>name: memos/b2\<newline>creator: users/2\<newline>visibility: PUBLIC\<newline>state: NORMAL\<newline>pinned: true\<newline>tags: [go, old]\<newline>create_time: 150\<newline>update_time: 160\<newline>---\<newline>\<newline>shared #go #old''"
  by (simp add: memo_document_def header_fields_def memo_b_def format_d_def digit_char_def
      format_nat.simps
      format_bool_def Public_def Normal_def)

theorem read_memo_resource_witness:
  "handleReadMemoResource (mem_store any_filter) sample_state 0 ''memo://memos/b2'' =
     Inr [\<lparr>URI = ''memo://memos/b2'', MIMEType = ''text/markdown'',
           Text = ''---\<newline>name: memos/b2\<newline>creator: users/2\<newline>visibility: PUBLIC\<newline>state: NORMAL\<newline>pinned: true\<newline>tags: [go, old]\<newline>create_time: 150\<newline>update_time: 160\<newline>---\<newline>\<newline>shared #go #old''\<rparr>]
   \<and> handleReadMemoResource (mem_store any_filter) sample_state 0 ''memo://memos/a1'' =
       Inl (AccessError PermissionDenied)
   \<and> handleReadMemoResource (mem_store any_filter) sample_state 0 ''memo://memos/'' =
       Inl (InvalidMemoURI ''memo://memos/'')
   \<and> handleReadMemoResource (mem_store any_filter) sample_state 0 ''memos/b2'' =
       Inl (InvalidMemoURI ''memos/b2'')"
proof -
  note t = read_memo_resource [of _ "mem_store any_filter" sample_state 0]
  have a: "checkMemoAccess memo_b 0 = None"
    by (simp add: checkMemoAccess_def memo_b_def Public_def Protected_def Private_def)
  have d: "checkMemoAccess memo_a 0 = Some PermissionDenied"
    by (simp add: checkMemoAccess_def memo_a_def Public_def Protected_def Private_def)
  have 1: "handleReadMemoResource (mem_store any_filter) sample_state 0 (''memo://memos/'' @ ''b2'') =
     Inr [\<lparr>URI = ''memo://memos/'' @ ''b2'', MIMEType = ''text/markdown'',
           Text = memo_document memo_b\<rparr>]"
    using t [of _ "''b2''"] by (simp add: sample_get_b2 a)
  have 2: "handleReadMemoResource (mem_store any_filter) sample_state 0 (''memo://memos/'' @ ''a1'') =
       Inl (AccessError PermissionDenied)"
    using t [of _ "''a1''"] by (simp add: sample_get_a1 d)
  have 3: "handleReadMemoResource (mem_store any_filter) sample_state 0 ''memo://memos/'' =
       Inl (InvalidMemoURI ''memo://memos/'')"
    using t [of "''memo://memos/''"] by simp
  have 4: "handleReadMemoResource (mem_store any_filter) sample_state 0 ''memos/b2'' =
       Inl (InvalidMemoURI ''memos/b2'')"
    using t [of "''memos/b2''"] by simp
  from 1 2 3 4 show ?thesis
    by (simp add: memo_document_b)
qed


subsection \<open>Tag counts\<close>

lemma set_fst_bump: "fst ` set (bump kvs t) = insert t (fst ` set kvs)"
  by (induction kvs t rule: bump.induct) auto

lemma counts_ok_bump: "counts_ok kvs \<Longrightarrow> counts_ok (bump kvs t)"
proof (induction kvs t rule: bump.induct)
  case (1 tag)
  then show ?case by (simp add: counts_ok_def)
next
  case (2 k n kvs tag)
  then show ?case
    using set_fst_bump [of kvs tag] by (auto simp: counts_ok_def)
qed

lemma cnt_bump: "cnt (bump kvs t) x = cnt kvs x + (if x = t then 1 else 0)"
  by (induction kvs t rule: bump.induct) (auto simp: cnt_def)

lemma counts_ok_foldl_bump: "counts_ok kvs \<Longrightarrow> counts_ok (foldl bump kvs tags)"
  by (induction tags arbitrary: kvs) (simp_all add: counts_ok_bump)

lemma cnt_foldl_bump: "cnt (foldl bump kvs tags) x = cnt kvs x + int (count_list tags x)"
  by (induction tags arbitrary: kvs) (simp_all add: cnt_bump)

lemma count_tags_foldl: "count_tags memos = foldl count_step [] memos"
  by (simp add: count_tags_def count_step_def [abs_def])

lemma counts_ok_steps: "counts_ok kvs \<Longrightarrow> counts_ok (foldl count_step kvs memos)"
  by (induction memos arbitrary: kvs)
     (simp_all add: count_step_def counts_ok_foldl_bump split: option.splits)

lemma cnt_steps: "cnt (foldl count_step kvs memos) x = cnt kvs x + tag_count memos x"
  by (induction memos arbitrary: kvs)
     (simp_all add: count_step_def tag_count_def cnt_foldl_bump split: option.splits)

lemma counts_ok_count_tags: "counts_ok (count_tags memos)"
  unfolding count_tags_foldl
  by (rule counts_ok_steps) (simp add: counts_ok_def)

lemma cnt_count_tags: "cnt (count_tags memos) x = tag_count memos x"
  using cnt_steps [of "[]" memos x] by (simp add: count_tags_foldl cnt_def)

lemma count_tags_entry:
  "(t, n) \<in> set (count_tags memos) \<longleftrightarrow> (n = tag_count memos t \<and> 0 < n)"
proof
  assume m: "(t, n) \<in> set (count_tags memos)"
  have ok: "counts_ok (count_tags memos)" by (rule counts_ok_count_tags)
  then have "map_of (count_tags memos) t = Some n"
    using m by (simp add: counts_ok_def)
  then have "cnt (count_tags memos) t = n" by (simp add: cnt_def)
  moreover have "0 < n" using ok m by (auto simp: counts_ok_def list_all_iff)
  ultimately show "n = tag_count memos t \<and> 0 < n" by (simp add: cnt_count_tags)
next
  assume a: "n = tag_count memos t \<and> 0 < n"
  then have "cnt (count_tags memos) t = n" by (simp add: cnt_count_tags)
  with a obtain n' where "map_of (count_tags memos) t = Some n'" and "n' = n"
    by (auto simp: cnt_def split: option.splits)
  then show "(t, n) \<in> set (count_tags memos)" by (auto dest: map_of_SomeD)
qed

lemma set_insert_entry: "set (insert_entry lt x ys) = insert x (set ys)"
  by (induction ys) auto

lemma set_sort_Slice: "set (sort_Slice lt xs) = set xs"
  by (induction xs) (simp_all add: sort_Slice_def set_insert_entry)

lemma tag_less_trans: "tag_less a b \<Longrightarrow> tag_less b c \<Longrightarrow> tag_less a c"
  by (auto simp: tag_less_def split: if_splits)

lemma tag_less_asym: "tag_less a b \<Longrightarrow> \<not> tag_less b a"
  by (auto simp: tag_less_def split: if_splits)

lemma tag_less_total: "Tag a \<noteq> Tag b \<Longrightarrow> tag_less a b \<or> tag_less b a"
  by (auto simp: tag_less_def)

lemma sorted_insert_entry:
  "sorted_wrt (\<lambda>a b. \<not> tag_less b a) ys \<Longrightarrow>
   sorted_wrt (\<lambda>a b. \<not> tag_less b a) (insert_entry tag_less x ys)"
proof (induction ys)
  case Nil
  then show ?case by simp
next
  case (Cons y ys)
  show ?case
  proof (cases "tag_less x y")
    case True
    have "\<not> tag_less z x" if "z \<in> set ys" for z
      using that Cons.prems True tag_less_trans [of z x y] by auto
    with True Cons.prems show ?thesis
      by (auto dest: tag_less_asym)
  next
    case False
    with Cons show ?thesis by (auto simp: set_insert_entry)
  qed
qed

lemma sorted_sort_Slice: "sorted_wrt (\<lambda>a b. \<not> tag_less b a) (sort_Slice tag_less xs)"
  by (induction xs) (simp_all add: sort_Slice_def sorted_insert_entry)

lemma distinct_insert_entry:
  "distinct (map f ys) \<Longrightarrow> f x \<notin> f ` set ys \<Longrightarrow> distinct (map f (insert_entry lt x ys))"
  by (induction ys) (auto simp: set_insert_entry)

lemma distinct_sort_Slice: "distinct (map f xs) \<Longrightarrow> distinct (map f (sort_Slice lt xs))"
proof (induction xs)
  case Nil
  then show ?case by (simp add: sort_Slice_def)
next
  case (Cons x xs)
  then have "distinct (map f (foldr (insert_entry lt) xs []))"
    by (simp add: sort_Slice_def)
  moreover have "f x \<notin> f ` set (foldr (insert_entry lt) xs [])"
    using Cons.prems set_sort_Slice [of lt xs] by (simp add: sort_Slice_def)
  ultimately show ?case
    by (simp add: sort_Slice_def distinct_insert_entry)
qed

lemma strictly_sorted:
  "sorted_wrt (\<lambda>a b. \<not> tag_less b a) xs \<Longrightarrow> distinct (map Tag xs) \<Longrightarrow> sorted_wrt tag_less xs"
  by (induction xs) (auto dest: tag_less_total)

lemma sorted_unique:
  "sorted_wrt tag_less xs \<Longrightarrow> sorted_wrt tag_less ys \<Longrightarrow> set xs = set ys \<Longrightarrow> xs = ys"
proof (induction xs arbitrary: ys)
  case Nil
  then show ?case by simp
next
  case (Cons x xs)
  then obtain y ys' where ys: "ys = y # ys'" by (cases ys) auto
  have irrefl: "\<not> tag_less a a" for a using tag_less_asym [of a a] by blast
  have xy: "x = y"
  proof (rule ccontr)
    assume ne: "x \<noteq> y"
    have "x \<in> set ys'" using Cons.prems(3) ys ne by auto
    then have 1: "tag_less y x" using Cons.prems(2) ys by auto
    have "y \<in> set xs" using Cons.prems(3) ys ne by auto
    then have "tag_less x y" using Cons.prems(1) by auto
    with 1 show False using tag_less_asym by blast
  qed
  have "x \<notin> set xs" using Cons.prems(1) irrefl by auto
  moreover have "y \<notin> set ys'" using Cons.prems(2) ys irrefl by auto
  ultimately have "set xs = set ys'" using Cons.prems(3) ys xy by auto
  then have "xs = ys'" using Cons.IH [of ys'] Cons.prems ys by auto
  with xy ys show ?case by simp
qed

text \<open>
  The order in which the entries reach the sort does not matter, nor does the sorting
  algorithm: entries with pairwise different tags have one sorted arrangement.
\<close>

lemma listTags_order_irrelevant:
  assumes "distinct (map Tag xs)" and "distinct (map Tag ys)" and "set ys = set xs"
  shows "sort_Slice tag_less ys = sort_Slice tag_less xs"
proof -
  have "sorted_wrt tag_less (sort_Slice tag_less xs)"
    using assms(1) by (intro strictly_sorted sorted_sort_Slice distinct_sort_Slice)
  moreover have "sorted_wrt tag_less (sort_Slice tag_less ys)"
    using assms(2) by (intro strictly_sorted sorted_sort_Slice distinct_sort_Slice)
  ultimately show ?thesis
    using assms(3) by (intro sorted_unique) (simp_all add: set_sort_Slice)
qed

lemma Tag_entries: "map Tag (map (\<lambda>(tag, count). \<lparr>Tag = tag, Count = count\<rparr>) kvs) = map fst kvs"
  by (induction kvs) auto

lemma listTags_entries_set:
  "e \<in> set (listTags_entries memos) \<longleftrightarrow>
     (Count e = tag_count memos (Tag e) \<and> 0 < Count e)"
proof -
  have "e \<in> set (listTags_entries memos) \<longleftrightarrow> (Tag e, Count e) \<in> set (count_tags memos)"
    by (cases e) (auto simp: listTags_entries_def set_sort_Slice)
  then show ?thesis by (simp add: count_tags_entry)
qed

lemma listTags_entries_distinct: "distinct (map Tag (listTags_entries memos))"
proof -
  have "distinct (map Tag (map (\<lambda>(tag, count). \<lparr>Tag = tag, Count = count\<rparr>) (count_tags memos)))"
    unfolding Tag_entries using counts_ok_count_tags [of memos] by (simp add: counts_ok_def)
  then show ?thesis
    unfolding listTags_entries_def by (rule distinct_sort_Slice)
qed

lemma listTags_entries_sorted: "sorted_wrt tag_less (listTags_entries memos)"
  using listTags_entries_distinct [of memos]
  by (intro strictly_sorted) (simp_all add: listTags_entries_def sorted_sort_Slice)

text \<open>
  C9. The entries that list-tags returns are sorted by count, larger first, and among
  equal counts by tag in ascending byte order; no tag stands twice; and the entries are
  exactly the tags with their counts, the count of a tag being the number of times it
  stands in the payload tag lists of the memos the store returned (a memo without
  payload adds nothing, a tag standing twice in one list counts twice).
\<close>

theorem list_tags_sorted_counts:
  "sorted_wrt (\<lambda>a b. Count a > Count b \<or> (Count a = Count b \<and> Tag a < Tag b))
      (listTags_entries memos)
   \<and> distinct (map Tag (listTags_entries memos))
   \<and> (\<forall>e. e \<in> set (listTags_entries memos) \<longleftrightarrow>
            (Count e = tag_count memos (Tag e) \<and> 0 < Count e))
   \<and> (ListMemos store st (listTags_find userID) = Inr memos \<longrightarrow>
        handleListTags store st userID =
          ToolResultText (JArray (map marshal_tagEntry (listTags_entries memos))))"
proof -
  have "sorted_wrt (\<lambda>a b. Count a > Count b \<or> (Count a = Count b \<and> Tag a < Tag b))
      (listTags_entries memos)"
    using listTags_entries_sorted [of memos]
    by (rule sorted_wrt_mono_rel [rotated]) (auto simp: tag_less_def split: if_splits)
  then show ?thesis
    using listTags_entries_distinct [of memos] listTags_entries_set [of _ memos]
    by (simp add: handleListTags_def)
qed

lemma sample_tags:
  "listTags_entries [memo_a, memo_b, memo_b\<lparr>Payload := None\<rparr>] =
     [\<lparr>Tag = ''old'', Count = 2\<rparr>, \<lparr>Tag = ''go'', Count = 1\<rparr>]"
  by (simp add: listTags_entries_def count_tags_def sort_Slice_def tag_less_def memo_a_def
      memo_b_def)

lemma sample_listTags_rows:
  "ListMemos (mem_store any_filter) sample_state (listTags_find 0)
     = Inr [memo_b\<lparr>Content := ''''\<rparr>]"
  by (simp add: mem_store_def mem_ListMemos_def mem_matches_def any_filter_def sample_state_def
      listTags_find_def applyVisibilityFilter_def FindMemo0_def memo_a_def memo_b_def Let_def
      Public_def Private_def Normal_def)

lemma sample_tags_anonymous:
  "listTags_entries [memo_b\<lparr>Content := ''''\<rparr>] =
     [\<lparr>Tag = ''go'', Count = 1\<rparr>, \<lparr>Tag = ''old'', Count = 1\<rparr>]"
  by (simp add: listTags_entries_def count_tags_def sort_Slice_def tag_less_def memo_b_def)

theorem list_tags_sorted_counts_witness:
  "handleListTags (mem_store any_filter) sample_state 0 =
     ToolResultText (JArray [JObject [(''tag'', JString ''go''), (''count'', JNumber 1)],
                             JObject [(''tag'', JString ''old''), (''count'', JNumber 1)]])
   \<and> listTags_entries [memo_a, memo_b, memo_b\<lparr>Payload := None\<rparr>] =
     [\<lparr>Tag = ''old'', Count = 2\<rparr>, \<lparr>Tag = ''go'', Count = 1\<rparr>]
   \<and> tag_count [memo_a, memo_b, memo_b\<lparr>Payload := None\<rparr>] ''old'' = 2
   \<and> tag_count [memo_a, memo_b, memo_b\<lparr>Payload := None\<rparr>] ''go'' = 1
   \<and> tag_count [memo_a, memo_b, memo_b\<lparr>Payload := None\<rparr>] ''idea'' \<le> 0"
proof -
  let ?ms = "[memo_a, memo_b, memo_b\<lparr>Payload := None\<rparr>]"
  note t = list_tags_sorted_counts [of ?ms "mem_store any_filter" sample_state 0]
  have m: "\<And>e. e \<in> set (listTags_entries ?ms) \<longleftrightarrow>
            (Count e = tag_count ?ms (Tag e) \<and> 0 < Count e)"
    using t by blast
  have 1: "tag_count ?ms ''old'' = 2"
    using m [of "\<lparr>Tag = ''old'', Count = 2\<rparr>"] by (simp add: sample_tags)
  have 2: "tag_count ?ms ''go'' = 1"
    using m [of "\<lparr>Tag = ''go'', Count = 1\<rparr>"] by (simp add: sample_tags)
  have 3: "tag_count ?ms ''idea'' \<le> 0"
    using m [of "\<lparr>Tag = ''idea'', Count = tag_count ?ms ''idea''\<rparr>"]
    by (simp add: sample_tags)
  have 4: "handleListTags (mem_store any_filter) sample_state 0 =
     ToolResultText (JArray [JObject [(''tag'', JString ''go''), (''count'', JNumber 1)],
                             JObject [(''tag'', JString ''old''), (''count'', JNumber 1)]])"
    using list_tags_sorted_counts
        [of "[memo_b\<lparr>Content := ''''\<rparr>]" "mem_store any_filter" sample_state 0]
      sample_listTags_rows
    by (simp add: sample_tags_anonymous marshal_tagEntry_def)
  from 1 2 3 4 show ?thesis by (simp add: sample_tags)
qed

end
